theory Spec2Isabelle
  imports Complex_Main
begin

section \<open>Values, errors and tensors\<close>

text \<open>
  The trainer of \<^verbatim>\<open>src/trainer.py\<close> is embedded with these conventions.
  \<^item> A raise of Python, torch or numpy is a value \<open>Inl e\<close> of the result type \<open>error + 'a\<close>.
  \<^item> A one-dimensional float tensor is a list of reals, a two-dimensional one the list of its
    rows (every row has the width of the first); integer and boolean tensors are lists of
    \<open>int\<close> and \<open>bool\<close>.
  \<^item> Tensor entries are real numbers: the rounding and the overflow of float32 are not modelled.
    The non-finite values that the program itself can create are: \<open>torch.log\<close> of a
    non-positive number and a mean over no element. An entry that may be non-finite has type
    \<open>real option\<close> (\<open>None\<close> is an infinity or NaN), and a scalar result has type
    \<open>scalar\<close>.
\<close>

datatype error =
  IndexError | ValueError | RuntimeError | ZeroDivisionError | TypeError | AttributeError | OSError

definition bnd :: "error + 'a \<Rightarrow> ('a \<Rightarrow> error + 'b) \<Rightarrow> error + 'b" where
  "bnd m f = (case m of Inl e \<Rightarrow> Inl e | Inr v \<Rightarrow> f v)"

fun sequence :: "(error + 'a) list \<Rightarrow> error + 'a list" where
  "sequence [] = Inr []"
| "sequence (m # ms) = bnd m (\<lambda>v. bnd (sequence ms) (\<lambda>vs. Inr (v # vs)))"

type_synonym vec = "real list"
type_synonym mat = "real list list"

text \<open>
  A scalar the program handles: a Python \<open>int\<close> (the literal \<open>0\<close> the accumulators and the
  short-circuits start from), a finite float (a 0-dimensional tensor or a numpy scalar), or a
  non-finite float (an infinity or NaN).
\<close>

datatype scalar = PyInt int | Float real | NonFinite

fun sc_add :: "scalar \<Rightarrow> scalar \<Rightarrow> scalar" where
  "sc_add (PyInt i) (PyInt j) = PyInt (i + j)"
| "sc_add (PyInt i) (Float y) = Float (of_int i + y)"
| "sc_add (Float x) (PyInt j) = Float (x + of_int j)"
| "sc_add (Float x) (Float y) = Float (x + y)"
| "sc_add _ _ = NonFinite"

text \<open>\<^verbatim>\<open>-1 * t\<close>.\<close>

fun sc_neg :: "scalar \<Rightarrow> scalar" where
  "sc_neg (PyInt i) = PyInt (-1 * i)"
| "sc_neg (Float x) = Float (-1 * x)"
| "sc_neg NonFinite = NonFinite"

text \<open>\<^verbatim>\<open>torch.log\<close> of one entry: minus infinity at 0 and NaN below.\<close>

definition torch_log :: "real \<Rightarrow> real option" where
  "torch_log x = (if 0 < x then Some (ln x) else None)"

text \<open>\<^verbatim>\<open>torch.mean\<close> of a one-dimensional tensor: NaN on no element.\<close>

definition torch_mean :: "real option list \<Rightarrow> scalar" where
  "torch_mean v =
     (if v = [] \<or> list_ex (\<lambda>x. x = None) v then NonFinite
      else Float (sum_list (map the v) / real (length v)))"

text \<open>
  \<^verbatim>\<open>torch.mean(x, dim=0)\<close>: the mean of every column. Its only arguments are the two chunks
  of a split, which have a row; on no row the width is lost and the model returns no column.
\<close>

definition mean_dim0 :: "mat \<Rightarrow> vec" where
  "mean_dim0 x =
     (case x of [] \<Rightarrow> []
      | r # _ \<Rightarrow> map (\<lambda>j. sum_list (map (\<lambda>row. row ! j) x) / real (length x)) [0..<length r])"

text \<open>\<^verbatim>\<open>model_outputs['last_hidden_state'][:, 0, :]\<close> on a tensor of shape [B,T,H].\<close>

definition first_token :: "real list list list \<Rightarrow> error + mat" where
  "first_token last_hidden_state =
     (if list_ex (\<lambda>s. s = []) last_hidden_state then Inl IndexError
      else Inr (map hd last_hidden_state))"

text \<open>\<^verbatim>\<open>torch.cat([a, b], dim=0)\<close>: the widths must agree.\<close>

definition torch_cat :: "mat \<Rightarrow> mat \<Rightarrow> error + mat" where
  "torch_cat a b =
     (if a \<noteq> [] \<and> b \<noteq> [] \<and> length (hd a) \<noteq> length (hd b) then Inl RuntimeError
      else Inr (a @ b))"

function chunks :: "nat \<Rightarrow> 'a list \<Rightarrow> 'a list list" where
  "chunks n xs = (if n = 0 \<or> xs = [] then [] else take n xs # chunks n (drop n xs))"
  by pat_completeness auto
termination
  by (relation "measure (\<lambda>(n, xs). length xs)") auto

declare chunks.simps [simp del]

text \<open>
  \<^verbatim>\<open>torch.split(x, split_size)\<close> along dimension 0: chunks of \<open>split_size\<close> rows, the last one
  shorter when the rows do not divide; one empty chunk for a tensor of no row; a split size of
  0 is accepted only for a tensor of no row.
\<close>

definition torch_split :: "'a list \<Rightarrow> nat \<Rightarrow> error + 'a list list" where
  "torch_split x split_size =
     (if split_size = 0 then (if x = [] then Inr [[]] else Inl RuntimeError)
      else if x = [] then Inr [[]]
      else Inr (chunks split_size x))"

text \<open>The tuple assignment \<^verbatim>\<open>a, b = ...\<close>: exactly two values, or ValueError.\<close>

fun unpack2 :: "'a list \<Rightarrow> error + ('a \<times> 'a)" where
  "unpack2 [a, b] = Inr (a, b)"
| "unpack2 _ = Inl ValueError"

definition split2 :: "'a list \<Rightarrow> nat \<Rightarrow> error + ('a list \<times> 'a list)" where
  "split2 x split_size = bnd (torch_split x split_size) unpack2"

text \<open>\<^verbatim>\<open>x[:, -1]\<close>: the last column; IndexError on a tensor of width 0.\<close>

definition last_col :: "mat \<Rightarrow> error + vec" where
  "last_col x = (if list_ex (\<lambda>r. r = []) x then Inl IndexError else Inr (map last x))"

text \<open>\<^verbatim>\<open>F.log_softmax(x, dim=-1)\<close> on one row.\<close>

definition log_softmax :: "vec \<Rightarrow> vec" where
  "log_softmax row = map (\<lambda>x. x - ln (sum_list (map exp row))) row"

text \<open>
  \<^verbatim>\<open>torch.nn.functional.one_hot(labels, num_classes)\<close>: every class value must be
  non-negative and smaller than \<open>num_classes\<close>, or a RuntimeError is raised; on no label
  the number of classes must be positive.
\<close>

definition one_hot :: "int list \<Rightarrow> nat \<Rightarrow> error + int list list" where
  "one_hot labs num_classes =
     (if labs = [] then (if num_classes = 0 then Inl RuntimeError else Inr [])
      else if list_ex (\<lambda>l. l < 0) labs then Inl RuntimeError
      else if list_ex (\<lambda>l. int num_classes \<le> l) labs then Inl RuntimeError
      else Inr (map (\<lambda>l. map (\<lambda>j. if int j = l then 1 else 0) [0..<num_classes]) labs))"

text \<open>
  Broadcasting of one dimension: equal sizes pair up, a size of 1 is repeated, anything else
  is a RuntimeError.
\<close>

definition broadcast_zip :: "'a list \<Rightarrow> 'b list \<Rightarrow> error + ('a \<times> 'b) list" where
  "broadcast_zip xs ys =
     (if length xs = length ys then Inr (zip xs ys)
      else if length xs = 1 then Inr (map (\<lambda>y. (hd xs, y)) ys)
      else if length ys = 1 then Inr (map (\<lambda>x. (x, hd ys)) xs)
      else Inl RuntimeError)"

text \<open>\<^verbatim>\<open>label2one_hot * log_probs\<close>: the product of an integer and a float matrix.\<close>

definition tensor_mul :: "int list list \<Rightarrow> mat \<Rightarrow> error + mat" where
  "tensor_mul a b =
     bnd (broadcast_zip a b) (\<lambda>rows.
       sequence (map (\<lambda>(r, s). bnd (broadcast_zip r s)
          (\<lambda>ps. Inr (map (\<lambda>(x, y). of_int x * y) ps))) rows))"

text \<open>\<^verbatim>\<open>torch.masked_select(input, mask)\<close>: the entries where the mask holds.\<close>

definition masked_select :: "vec \<Rightarrow> bool list \<Rightarrow> error + vec" where
  "masked_select inp msk =
     bnd (broadcast_zip inp msk) (\<lambda>ps. Inr (map fst (filter snd ps)))"

section \<open>The trainer\<close>

text \<open>
  The encoder, the generator and the discriminator are modules of other files: they are
  parameters of the model. Each call reads and may change the mutable state \<open>'p\<close> that the
  trainer owns (the parameters and buffers of the three modules, the state of the two
  optimizers, the random number generator). \<open>optimizer_update\<close> is the effect of lines
  157-165 on that state: zeroing the gradients, the two backward passes and the two optimizer
  steps.
\<close>

datatype mode = Train | Eval

record 'p models =
  encoder :: "mode \<Rightarrow> int list list \<Rightarrow> int list list \<Rightarrow> 'p \<Rightarrow> real list list list \<times> 'p"
  generator :: "mode \<Rightarrow> mat \<Rightarrow> 'p \<Rightarrow> mat \<times> 'p"
  discriminator :: "mode \<Rightarrow> mat \<Rightarrow> 'p \<Rightarrow> (mat \<times> mat \<times> mat) \<times> 'p"
  uniform_noise :: "nat \<Rightarrow> nat \<Rightarrow> 'p \<Rightarrow> mat \<times> 'p"
  optimizer_update :: "'p \<Rightarrow> 'p"

record config =
  learning_rate_discriminator :: real
  learning_rate_generator :: real
  generator_noise_size :: nat
  epsilon :: real
  label_list :: "string list"
  train_batch_size :: nat
  val_batch_size :: nat
  artifact_path :: string

text \<open>
  A batch is the sequence the dataloader yields: \<open>batch[0]\<close> the input ids, \<open>batch[1]\<close> the
  attention mask, \<open>batch[2]\<close> the labels and \<open>batch[3]\<close> the label mask. \<open>None\<close> stands for a
  sequence that is too short to have the element (reading it is an IndexError).
\<close>

record batch =
  input_ids :: "int list list"
  input_mask :: "int list list"
  labels :: "int list option"
  label_mask :: "bool list option"

text \<open>The calls of the three modules, in the order they are made.\<close>

datatype call =
  EncoderCall mode "int list list" "int list list"
| GeneratorCall mode mat
| DiscriminatorCall mode mat

record 'p trainer =
  params :: 'p
  calls :: "call list"

definition run_encoder ::
  "'p models \<Rightarrow> mode \<Rightarrow> int list list \<Rightarrow> int list list \<Rightarrow> 'p trainer
     \<Rightarrow> real list list list \<times> 'p trainer" where
  "run_encoder env m ids msk st =
     (let (out, p) = encoder env m ids msk (params st)
      in (out, st\<lparr>params := p, calls := calls st @ [EncoderCall m ids msk]\<rparr>))"

definition run_generator :: "'p models \<Rightarrow> mode \<Rightarrow> mat \<Rightarrow> 'p trainer \<Rightarrow> mat \<times> 'p trainer" where
  "run_generator env m z st =
     (let (out, p) = generator env m z (params st)
      in (out, st\<lparr>params := p, calls := calls st @ [GeneratorCall m z]\<rparr>))"

definition run_discriminator ::
  "'p models \<Rightarrow> mode \<Rightarrow> mat \<Rightarrow> 'p trainer \<Rightarrow> (mat \<times> mat \<times> mat) \<times> 'p trainer" where
  "run_discriminator env m x st =
     (let (out, p) = discriminator env m x (params st)
      in (out, st\<lparr>params := p, calls := calls st @ [DiscriminatorCall m x]\<rparr>))"

text \<open>\<^verbatim>\<open>_generate_noise\<close>: a tensor of shape [batch_size, generator_noise_size].\<close>

definition generate_noise :: "'p models \<Rightarrow> config \<Rightarrow> nat \<Rightarrow> 'p trainer \<Rightarrow> mat \<times> 'p trainer" where
  "generate_noise env cfg batch_size st =
     (let (z, p) = uniform_noise env batch_size (generator_noise_size cfg) (params st)
      in (z, st\<lparr>params := p\<rparr>))"

subsection \<open>train_step\<close>

text \<open>What lines 114-131 of \<^verbatim>\<open>train_step\<close> leave in its local variables.\<close>

record forward =
  b_labels :: "int list"
  b_label_mask :: "bool list"
  dis_real_features :: mat
  dis_fake_features :: mat
  dis_real_logits :: mat
  dis_fake_logits :: mat
  dis_real_probs :: mat
  dis_fake_probs :: mat

text \<open>Lines 112-131: the forward pass on the batch and the split of its outputs.\<close>

definition train_step_forward ::
  "'p models \<Rightarrow> config \<Rightarrow> batch \<Rightarrow> 'p trainer \<Rightarrow> error + (forward \<times> 'p trainer)" where
  "train_step_forward env cfg batch st0 =
     (case labels batch of None \<Rightarrow> Inl IndexError | Some labs \<Rightarrow>
      case label_mask batch of None \<Rightarrow> Inl IndexError | Some lmask \<Rightarrow>
      let real_batch_size = length (input_ids batch);
          (model_outputs, st1) = run_encoder env Train (input_ids batch) (input_mask batch) st0
      in bnd (first_token model_outputs) (\<lambda>hidden_states.
         let (noise, st2) = generate_noise env cfg real_batch_size st1;
             (generator_representation, st3) = run_generator env Train noise st2
         in bnd (torch_cat hidden_states generator_representation) (\<lambda>disciminator_input.
            let ((features, logits, probs), st4) =
                  run_discriminator env Train disciminator_input st3
            in bnd (split2 features real_batch_size) (\<lambda>(real_features, fake_features).
               bnd (split2 logits real_batch_size) (\<lambda>(real_logits, fake_logits).
               bnd (split2 probs real_batch_size) (\<lambda>(real_probs, fake_probs).
               Inr (\<lparr>b_labels = labs, b_label_mask = lmask,
                      dis_real_features = real_features, dis_fake_features = fake_features,
                      dis_real_logits = real_logits, dis_fake_logits = fake_logits,
                      dis_real_probs = real_probs, dis_fake_probs = fake_probs\<rparr>, st4)))))))"

text \<open>
  Lines 133-136. The two means over the batch axis have one width, being the column means of
  two chunks of one tensor, so their difference pairs the entries up.
\<close>

definition generator_loss_of :: "config \<Rightarrow> forward \<Rightarrow> error + scalar" where
  "generator_loss_of cfg fwd =
     bnd (last_col (dis_fake_probs fwd)) (\<lambda>fake_p.
       Inr (sc_add
         (sc_neg (torch_mean (map (\<lambda>p. torch_log (1 - p + epsilon cfg)) fake_p)))
         (torch_mean (map (\<lambda>(a, b). Some ((a - b) ^ 2))
            (zip (mean_dim0 (dis_real_features fwd)) (mean_dim0 (dis_fake_features fwd)))))))"

text \<open>Lines 138-151: the supervised term of the discriminator loss.\<close>

definition dl_supervised :: "config \<Rightarrow> forward \<Rightarrow> error + scalar" where
  "dl_supervised cfg fwd =
     (let log_probs = map log_softmax (map butlast (dis_real_logits fwd)) in
      bnd (one_hot (b_labels fwd) (length (label_list cfg))) (\<lambda>label2one_hot.
      bnd (tensor_mul label2one_hot log_probs) (\<lambda>weighted.
      let single_example_loss = map (\<lambda>r. - sum_list r) weighted in
      bnd (masked_select single_example_loss (b_label_mask fwd)) (\<lambda>selected_single_example_loss.
      let labeled_example_count = length selected_single_example_loss in
      Inr (if labeled_example_count = 0 then PyInt 0
           else Float (sum_list selected_single_example_loss / real labeled_example_count))))))"

text \<open>Lines 138-155.\<close>

definition discriminator_loss_of :: "config \<Rightarrow> forward \<Rightarrow> error + scalar" where
  "discriminator_loss_of cfg fwd =
     bnd (dl_supervised cfg fwd) (\<lambda>supervised.
     bnd (last_col (dis_real_probs fwd)) (\<lambda>real_p.
     let dl_unsupervised1u = sc_neg (torch_mean (map (\<lambda>p. torch_log (1 - p + epsilon cfg)) real_p)) in
     bnd (last_col (dis_fake_probs fwd)) (\<lambda>fake_p.
     let dl_unsupervised2u = sc_neg (torch_mean (map (\<lambda>p. torch_log (p + epsilon cfg)) fake_p)) in
     Inr (sc_add (sc_add supervised dl_unsupervised1u) dl_unsupervised2u))))"

record losses =
  generator_loss :: scalar
  discriminator_loss :: scalar

definition run_optimizers :: "'p models \<Rightarrow> 'p trainer \<Rightarrow> 'p trainer" where
  "run_optimizers env st = st\<lparr>params := optimizer_update env (params st)\<rparr>"

definition train_step ::
  "'p models \<Rightarrow> config \<Rightarrow> batch \<Rightarrow> 'p trainer \<Rightarrow> error + (losses \<times> 'p trainer)" where
  "train_step env cfg batch st0 =
     bnd (train_step_forward env cfg batch st0) (\<lambda>(fwd, st1).
     bnd (generator_loss_of cfg fwd) (\<lambda>g.
     bnd (discriminator_loss_of cfg fwd) (\<lambda>d.
     Inr (\<lparr>generator_loss = g, discriminator_loss = d\<rparr>, run_optimizers env st1))))"

subsection \<open>train_epoch\<close>

text \<open>
  \<^verbatim>\<open>acc / len(dataloader)\<close>: the division of two Python ints raises on 0; a numpy scalar
  divided by 0 is an infinity or NaN.
\<close>

fun py_truediv :: "scalar \<Rightarrow> nat \<Rightarrow> error + scalar" where
  "py_truediv (PyInt i) n =
     (if n = 0 then Inl ZeroDivisionError else Inr (Float (of_int i / real n)))"
| "py_truediv (Float x) n = Inr (if n = 0 then NonFinite else Float (x / real n))"
| "py_truediv NonFinite n = Inr NonFinite"

text \<open>The loop of lines 101-104; the dataloader is the list of the batches it yields.\<close>

fun train_loop ::
  "'p models \<Rightarrow> config \<Rightarrow> batch list \<Rightarrow> scalar \<times> scalar \<Rightarrow> 'p trainer
     \<Rightarrow> error + ((scalar \<times> scalar) \<times> 'p trainer)" where
  "train_loop env cfg [] acc st = Inr (acc, st)"
| "train_loop env cfg (b # bs) (g_acc, d_acc) st =
     bnd (train_step env cfg b st) (\<lambda>(all_losses, st').
       train_loop env cfg bs
         (sc_add g_acc (generator_loss all_losses), sc_add d_acc (discriminator_loss all_losses)) st')"

definition train_epoch ::
  "'p models \<Rightarrow> config \<Rightarrow> batch list \<Rightarrow> 'p trainer \<Rightarrow> error + (losses \<times> 'p trainer)" where
  "train_epoch env cfg train_dataloader st =
     bnd (train_loop env cfg train_dataloader (PyInt 0, PyInt 0) st) (\<lambda>((g_acc, d_acc), st').
     bnd (py_truediv g_acc (length train_dataloader)) (\<lambda>g.
     bnd (py_truediv d_acc (length train_dataloader)) (\<lambda>d.
     Inr (\<lparr>generator_loss = g, discriminator_loss = d\<rparr>, st'))))"

subsection \<open>val_step\<close>

text \<open>
  \<^verbatim>\<open>torch.nn.CrossEntropyLoss()\<close> with its defaults (mean reduction, \<open>ignore_index = -100\<close>):
  the batch sizes must agree, a target that is not ignored must be a column of the input, and
  the mean is over the targets that are not ignored (NaN when there is none).
\<close>

definition cross_entropy :: "mat \<Rightarrow> int list \<Rightarrow> error + scalar" where
  "cross_entropy inp target =
     (if length inp \<noteq> length target then Inl ValueError
      else if list_ex (\<lambda>(row, t). t \<noteq> - 100 \<and> (t < 0 \<or> int (length row) \<le> t)) (zip inp target)
      then Inl IndexError
      else let kept = filter (\<lambda>(row, t). t \<noteq> - 100) (zip inp target) in
           Inr (if kept = [] then NonFinite
                else Float (sum_list (map (\<lambda>(row, t). - (log_softmax row ! nat t)) kept)
                            / real (length kept))))"

text \<open>
  The indices that \<^verbatim>\<open>torch.max(x, 1)\<close> returns: in every row the first position of the
  largest entry; IndexError on a tensor of width 0.
\<close>

fun argmax_scan :: "nat \<Rightarrow> real \<Rightarrow> nat \<Rightarrow> vec \<Rightarrow> nat" where
  "argmax_scan best_i best_v i [] = best_i"
| "argmax_scan best_i best_v i (x # xs) =
     (if best_v < x then argmax_scan i x (Suc i) xs else argmax_scan best_i best_v (Suc i) xs)"

definition argmax :: "vec \<Rightarrow> nat" where
  "argmax row = (case row of [] \<Rightarrow> 0 | x # xs \<Rightarrow> argmax_scan 0 x 1 xs)"

definition torch_max_dim1 :: "mat \<Rightarrow> error + int list" where
  "torch_max_dim1 x =
     (if list_ex (\<lambda>r. r = []) x then Inl IndexError else Inr (map (\<lambda>r. int (argmax r)) x))"

text \<open>
  Lines 209-234. The result is the tuple (validation_loss, predictions, ground_truths, probs);
  \<open>None\<close> is Python's \<open>None\<close>.
\<close>

definition val_step ::
  "'p models \<Rightarrow> batch \<Rightarrow> bool \<Rightarrow> 'p trainer
     \<Rightarrow> error + ((scalar \<times> int list \<times> int list option \<times> mat) \<times> 'p trainer)" where
  "val_step env batch inference_mode st0 =
     bnd (if inference_mode then Inr None
          else (case labels batch of None \<Rightarrow> Inl IndexError | Some l \<Rightarrow> Inr (Some l)))
       (\<lambda>b_labels.
     let (model_outputs, st1) = run_encoder env Eval (input_ids batch) (input_mask batch) st0 in
     bnd (first_token model_outputs) (\<lambda>hidden_states.
     let ((features, logits, probs), st2) = run_discriminator env Eval hidden_states st1;
         filtered_logits = map butlast logits in
     bnd (if inference_mode then Inr (PyInt 0)
          else (case b_labels of None \<Rightarrow> Inl TypeError
                | Some l \<Rightarrow> cross_entropy filtered_logits l))
       (\<lambda>validation_loss.
     bnd (torch_max_dim1 filtered_logits) (\<lambda>predictions.
     let ground_truths = (if inference_mode then None else b_labels) in
     Inr ((validation_loss, predictions, ground_truths, probs), st2)))))"

subsection \<open>_compute_metrics\<close>

text \<open>
  \<^verbatim>\<open>predictions == ground_truths\<close> on two one-dimensional numpy arrays broadcasts. When the
  shapes cannot be broadcast, NumPy from 1.25 on raises ValueError and older releases return
  the scalar \<open>False\<close> (with a DeprecationWarning), which \<^verbatim>\<open>np.sum\<close> counts as 0; the flag
  \<open>strict\<close> says which NumPy runs.
\<close>

definition np_equal :: "bool \<Rightarrow> int list \<Rightarrow> int list \<Rightarrow> error + bool list" where
  "np_equal strict a b =
     (case broadcast_zip a b of
        Inr ps \<Rightarrow> Inr (map (\<lambda>(x, y). x = y) ps)
      | Inl e \<Rightarrow> (if strict then Inl ValueError else Inr [False]))"

text \<open>Lines 236-238; a numpy integer divided by 0 is NaN or an infinity, not a raise.\<close>

definition compute_metrics :: "bool \<Rightarrow> int list \<Rightarrow> int list \<Rightarrow> error + scalar" where
  "compute_metrics strict predictions ground_truths =
     bnd (np_equal strict predictions ground_truths) (\<lambda>eq.
       Inr (if length predictions = 0 then NonFinite
            else Float (real (length (filter id eq)) / real (length predictions))))"

subsection \<open>val_epoch\<close>

text \<open>\<^verbatim>\<open>torch.stack\<close>: at least one tensor, all of one shape.\<close>

definition torch_stack :: "'a list \<Rightarrow> error + 'a list" where
  "torch_stack xs = (if xs = [] then Inl RuntimeError else Inr xs)"

definition torch_stack_rows :: "mat \<Rightarrow> error + mat" where
  "torch_stack_rows xs =
     (if xs = [] \<or> list_ex (\<lambda>r. length r \<noteq> length (hd xs)) xs then Inl RuntimeError
      else Inr xs)"

text \<open>
  \<^verbatim>\<open>(validation_loss / len(val_dataloader)).item()\<close>: a Python float (the quotient of
  two ints) has no \<open>item\<close>.
\<close>

definition div_item :: "scalar \<Rightarrow> nat \<Rightarrow> error + scalar" where
  "div_item acc n =
     (case acc of
        PyInt i \<Rightarrow> bnd (py_truediv acc n) (\<lambda>q. Inl AttributeError)
      | _ \<Rightarrow> py_truediv acc n)"

text \<open>
  The loop of lines 176-183. \<^verbatim>\<open>val_step\<close> is called without \<open>inference_mode\<close>, which
  is its default \<open>False\<close>; \<^verbatim>\<open>ground_truths += None\<close> would be a TypeError.
\<close>

fun val_loop ::
  "'p models \<Rightarrow> batch list \<Rightarrow> scalar \<times> int list \<times> int list \<times> mat \<Rightarrow> 'p trainer
     \<Rightarrow> error + ((scalar \<times> int list \<times> int list \<times> mat) \<times> 'p trainer)" where
  "val_loop env [] acc st = Inr (acc, st)"
| "val_loop env (b # bs) (validation_loss, predictions, ground_truths, probs) st =
     bnd (val_step env b False st) (\<lambda>((l, p, g, pr), st').
       case g of
         None \<Rightarrow> Inl TypeError
       | Some g' \<Rightarrow>
           val_loop env bs (sc_add validation_loss l, predictions @ p, ground_truths @ g', probs @ pr) st')"

text \<open>
  The dictionary that \<^verbatim>\<open>val_epoch\<close> returns; \<open>extras\<close> are the keys \<open>predictions\<close>,
  \<open>ground_truths\<close> and \<open>probs\<close>, present in mode \<open>inference\<close> only.
\<close>

record val_summary =
  validation_accuracy :: scalar
  validation_loss :: scalar
  extras :: "(int list \<times> int list \<times> mat) option"

definition val_epoch ::
  "'p models \<Rightarrow> bool \<Rightarrow> batch list \<Rightarrow> string \<Rightarrow> 'p trainer \<Rightarrow> error + (val_summary \<times> 'p trainer)" where
  "val_epoch env strict val_dataloader mode st =
     bnd (val_loop env val_dataloader (PyInt 0, [], [], []) st)
       (\<lambda>((loss_acc, preds, gts, probs), st').
     bnd (torch_stack preds) (\<lambda>predictions.
     bnd (torch_stack gts) (\<lambda>ground_truths.
     bnd (div_item loss_acc (length val_dataloader)) (\<lambda>loss.
     bnd (compute_metrics strict predictions ground_truths) (\<lambda>validation_accouracy.
     if mode = ''inference''
     then bnd (torch_stack_rows probs) (\<lambda>stacked.
            Inr (\<lparr>validation_accuracy = validation_accouracy, validation_loss = loss,
                   extras = Some (predictions, ground_truths, stacked)\<rparr>, st'))
     else Inr (\<lparr>validation_accuracy = validation_accouracy, validation_loss = loss,
                 extras = None\<rparr>, st'))))))"

subsection \<open>save_model\<close>










subsection \<open>train\<close>





section \<open>The quantities of the specification\<close>

text \<open>
  The definitions of this section follow the words of the specification; the theorems compare
  them with what the code computes. \<open>C\<close> is the number of real classes, so that column \<open>C\<close>
  (counted from 0) of a row of logits or probabilities is the fake class.
\<close>

text \<open>
  The negative log-likelihood of class \<open>l\<close> under the log-softmax of the first \<open>C\<close> logits.
\<close>

definition nll :: "nat \<Rightarrow> vec \<Rightarrow> int \<Rightarrow> real" where
  "nll C logits_row l = - (log_softmax (take C logits_row) ! nat l)"

text \<open>
  The supervised term: the average of the negative log-likelihoods over the examples whose
  label mask is true, and 0 when there is none.
\<close>

definition supervised_term :: "nat \<Rightarrow> mat \<Rightarrow> int list \<Rightarrow> bool list \<Rightarrow> scalar" where
  "supervised_term C real_logits labs msk =
     (let labeled = filter (\<lambda>i. msk ! i) [0..<length real_logits]
      in if labeled = [] then PyInt 0
         else Float ((\<Sum>i\<leftarrow>labeled. nll C (real_logits ! i) (labs ! i)) / real (length labeled)))"

text \<open>
  The two unsupervised terms and the adversarial term.
\<close>

definition unsupervised_real :: "real \<Rightarrow> nat \<Rightarrow> mat \<Rightarrow> scalar" where
  "unsupervised_real eps C real_probs =
     sc_neg (torch_mean (map (\<lambda>row. torch_log (1 - row ! C + eps)) real_probs))"

definition unsupervised_fake :: "real \<Rightarrow> nat \<Rightarrow> mat \<Rightarrow> scalar" where
  "unsupervised_fake eps C fake_probs =
     sc_neg (torch_mean (map (\<lambda>row. torch_log (row ! C + eps)) fake_probs))"

definition adversarial_term :: "real \<Rightarrow> nat \<Rightarrow> mat \<Rightarrow> scalar" where
  "adversarial_term eps C fake_probs =
     sc_neg (torch_mean (map (\<lambda>row. torch_log (1 - row ! C + eps)) fake_probs))"

text \<open>
  The feature-matching term on features of width \<open>H\<close>: the mean over the feature columns of
  the squared difference of the two means over the batch axis.
\<close>

definition batch_mean :: "mat \<Rightarrow> nat \<Rightarrow> real" where
  "batch_mean x j = (\<Sum>row\<leftarrow>x. row ! j) / real (length x)"

definition feature_matching_term :: "nat \<Rightarrow> mat \<Rightarrow> mat \<Rightarrow> scalar" where
  "feature_matching_term H real_features fake_features =
     torch_mean (map (\<lambda>j. Some ((batch_mean real_features j - batch_mean fake_features j) ^ 2))
       [0..<H])"

text \<open>
  The shapes that the data model of the specification gives to what the forward pass leaves:
  at least one example, one label and one mask entry per example, features of width \<open>H\<close>,
  logits and probabilities of width \<open>C + 1\<close>. A dataloader yields no empty batch; on a batch
  of no example the tuple assignment of line 129 raises.
\<close>

definition shapes_ok :: "config \<Rightarrow> nat \<Rightarrow> forward \<Rightarrow> bool" where
  "shapes_ok cfg H fwd \<longleftrightarrow>
     (let C = length (label_list cfg); B = length (dis_real_logits fwd) in
      0 < B \<and> length (b_labels fwd) = B \<and> length (b_label_mask fwd) = B
      \<and> dis_real_features fwd \<noteq> [] \<and> dis_fake_features fwd \<noteq> []
      \<and> list_all (\<lambda>r. length r = H) (dis_real_features fwd)
      \<and> list_all (\<lambda>r. length r = H) (dis_fake_features fwd)
      \<and> list_all (\<lambda>r. length r = C + 1) (dis_real_logits fwd)
      \<and> list_all (\<lambda>r. length r = C + 1) (dis_real_probs fwd)
      \<and> list_all (\<lambda>r. length r = C + 1) (dis_fake_probs fwd))"

text \<open>
  The precondition of the specification on the labels: indices into the label list.
\<close>

definition labels_in_range :: "config \<Rightarrow> int list \<Rightarrow> bool" where
  "labels_in_range cfg labs = list_all (\<lambda>l. 0 \<le> l \<and> l < int (length (label_list cfg))) labs"

text \<open>
  The calls of the discriminator among the calls of the modules.
\<close>

fun is_discriminator_call :: "call \<Rightarrow> bool" where
  "is_discriminator_call (DiscriminatorCall m x) = True"
| "is_discriminator_call _ = False"

text \<open>
  The cross-entropy between the first \<open>C\<close> columns of the logits and the labels: the mean
  of the negative log-likelihoods over the batch (NaN on no example).
\<close>

definition mean_nll :: "nat \<Rightarrow> mat \<Rightarrow> int list \<Rightarrow> scalar" where
  "mean_nll C logits labs =
     (if logits = [] then NonFinite
      else Float ((\<Sum>i\<leftarrow>[0..<length logits]. nll C (logits ! i) (labs ! i))
                  / real (length logits)))"

text \<open>
  The arg-max of a row: the first position of a largest entry.
\<close>

definition is_first_max :: "vec \<Rightarrow> nat \<Rightarrow> bool" where
  "is_first_max row k \<longleftrightarrow>
     k < length row \<and> (\<forall>j<length row. row ! j \<le> row ! k) \<and> (\<forall>j<k. row ! j < row ! k)"

text \<open>
  The per-batch losses of an epoch: \<^verbatim>\<open>train_step\<close> on every batch in order, each on the
  state the one before has left.
\<close>

fun train_steps ::
  "'p models \<Rightarrow> config \<Rightarrow> batch list \<Rightarrow> 'p trainer \<Rightarrow> error + (losses list \<times> 'p trainer)" where
  "train_steps env cfg [] st = Inr ([], st)"
| "train_steps env cfg (b # bs) st =
     bnd (train_step env cfg b st) (\<lambda>(l, st').
     bnd (train_steps env cfg bs st') (\<lambda>(ls, st'').
     Inr (l # ls, st'')))"

text \<open>
  The per-batch results of a validation epoch: \<^verbatim>\<open>val_step\<close> on every batch in order,
  with \<open>inference_mode\<close> false, and the components of one result.
\<close>

fun val_steps ::
  "'p models \<Rightarrow> batch list \<Rightarrow> 'p trainer
     \<Rightarrow> error + ((scalar \<times> int list \<times> int list option \<times> mat) list \<times> 'p trainer)" where
  "val_steps env [] st = Inr ([], st)"
| "val_steps env (b # bs) st =
     bnd (val_step env b False st) (\<lambda>(r, st').
     bnd (val_steps env bs st') (\<lambda>(rs, st'').
     Inr (r # rs, st'')))"

definition step_loss :: "scalar \<times> int list \<times> int list option \<times> mat \<Rightarrow> scalar" where
  "step_loss r = fst r"

definition step_predictions :: "scalar \<times> int list \<times> int list option \<times> mat \<Rightarrow> int list" where
  "step_predictions r = fst (snd r)"

definition step_ground_truths ::
  "scalar \<times> int list \<times> int list option \<times> mat \<Rightarrow> int list option" where
  "step_ground_truths r = fst (snd (snd r))"

definition step_probs :: "scalar \<times> int list \<times> int list option \<times> mat \<Rightarrow> mat" where
  "step_probs r = snd (snd (snd r))"

text \<open>
  A scalar that is a float (a tensor or numpy value), not a Python int.
\<close>

fun is_float :: "scalar \<Rightarrow> bool" where
  "is_float (PyInt i) = False"
| "is_float _ = True"

text \<open>
  The arithmetic mean of scalars: the sum divided by the number, non-finite as soon as one of
  them is.
\<close>

fun sc_value :: "scalar \<Rightarrow> real option" where
  "sc_value (PyInt i) = Some (of_int i)"
| "sc_value (Float x) = Some x"
| "sc_value NonFinite = None"

definition arithmetic_mean :: "scalar list \<Rightarrow> scalar" where
  "arithmetic_mean xs =
     (case those (map sc_value xs) of
        None \<Rightarrow> NonFinite
      | Some vs \<Rightarrow> Float (sum_list vs / real (length xs)))"

text \<open>
  The fraction of the positions where the prediction is the ground truth.
\<close>

definition fraction_correct :: "int list \<Rightarrow> int list \<Rightarrow> real" where
  "fraction_correct p g =
     real (length (filter (\<lambda>i. p ! i = g ! i) [0..<length p])) / real (length p)"






section \<open>An example\<close>

text \<open>
  A concrete trainer on which the theorems are instantiated: two classes, a batch of two
  examples, an encoder with hidden states of width 2, a discriminator whose first feature is
  the first entry of its input row, and a state that counts the optimizer steps.
\<close>

definition example_models :: "nat models" where
  "example_models =
     \<lparr>encoder = (\<lambda>m ids msk p. (map (\<lambda>row. [[1, 2]]) ids, p)),
      generator = (\<lambda>m z p. (map (\<lambda>row. [0, 0]) z, p)),
      discriminator = (\<lambda>m x p.
        ((map (\<lambda>r. [hd r, 3]) x, map (\<lambda>r. [0, 0, 0]) x, map (\<lambda>r. [1 / 4, 1 / 4, 1 / 2]) x), p)),
      uniform_noise = (\<lambda>b n p. (replicate b (replicate n (1 / 2)), p)),
      optimizer_update = Suc\<rparr>"

definition example_config :: config where
  "example_config =
     \<lparr>learning_rate_discriminator = 1 / 100, learning_rate_generator = 1 / 100,
      generator_noise_size = 1, epsilon = 1 / 100, label_list = [''neg'', ''pos''],
      train_batch_size = 2, val_batch_size = 2, artifact_path = ''artifact/checkpoint''\<rparr>"

definition example_batch :: "int list option \<Rightarrow> bool list option \<Rightarrow> batch" where
  "example_batch labs msk =
     \<lparr>input_ids = [[5, 6], [7, 8]], input_mask = [[1, 1], [1, 1]], labels = labs,
      label_mask = msk\<rparr>"

definition example_trainer :: "nat trainer" where
  "example_trainer = \<lparr>params = 0, calls = []\<rparr>"

definition example_forward :: "int list \<Rightarrow> bool list \<Rightarrow> forward" where
  "example_forward labs msk =
     \<lparr>b_labels = labs, b_label_mask = msk,
      dis_real_features = [[1, 3], [1, 3]], dis_fake_features = [[0, 3], [0, 3]],
      dis_real_logits = [[0, 0, 0], [0, 0, 0]], dis_fake_logits = [[0, 0, 0], [0, 0, 0]],
      dis_real_probs = [[1 / 4, 1 / 4, 1 / 2], [1 / 4, 1 / 4, 1 / 2]],
      dis_fake_probs = [[1 / 4, 1 / 4, 1 / 2], [1 / 4, 1 / 4, 1 / 2]]\<rparr>"

definition example_calls :: "call list" where
  "example_calls =
     [EncoderCall Train [[5, 6], [7, 8]] [[1, 1], [1, 1]],
      GeneratorCall Train [[1 / 2], [1 / 2]],
      DiscriminatorCall Train [[1, 2], [1, 2], [0, 0], [0, 0]]]"

definition example_val_calls :: "call list" where
  "example_val_calls =
     [EncoderCall Eval [[5, 6], [7, 8]] [[1, 1], [1, 1]],
      DiscriminatorCall Eval [[1, 2], [1, 2]]]"







section \<open>Facts about the tensor operations\<close>

lemma bnd_Inr [simp]: "bnd (Inr v) f = f v"
  by (simp add: bnd_def)

lemma bnd_Inl [simp]: "bnd (Inl e) f = Inl e"
  by (simp add: bnd_def)

lemma bnd_eq_Inr: "bnd m f = Inr r \<longleftrightarrow> (\<exists>v. m = Inr v \<and> f v = Inr r)"
  by (cases m) simp_all

lemma chunks_Nil [simp]: "chunks n [] = []"
  by (simp add: chunks.simps)

lemma chunks_step: "0 < n \<Longrightarrow> xs \<noteq> [] \<Longrightarrow> chunks n xs = take n xs # chunks n (drop n xs)"
  by (subst chunks.simps) simp

lemma chunks_eq_Nil: "chunks n xs = [] \<longleftrightarrow> n = 0 \<or> xs = []"
  by (subst chunks.simps) simp

lemma split2_halves:
  assumes "0 < n" and "n < length x" and "length x \<le> 2 * n"
  shows "split2 x n = Inr (take n x, drop n x)"
proof -
  have x: "x \<noteq> []" and d: "drop n x \<noteq> []"
    using assms by auto
  have "chunks n (drop n x) = [drop n x]"
    using assms d by (simp add: chunks_step)
  then have "chunks n x = [take n x, drop n x]"
    using assms x by (simp add: chunks_step)
  then show ?thesis
    using assms x by (simp add: split2_def torch_split_def)
qed

lemma split2_zero: "split2 x 0 = Inl (if x = [] then ValueError else RuntimeError)"
  by (simp add: split2_def torch_split_def)

lemma broadcast_zip_same: "length xs = length ys \<Longrightarrow> broadcast_zip xs ys = Inr (zip xs ys)"
  by (simp add: broadcast_zip_def)

lemma sequence_map_cong_Inr:
  "(\<And>x. x \<in> set xs \<Longrightarrow> g x = Inr (f x)) \<Longrightarrow> sequence (map g xs) = Inr (map f xs)"
  by (induction xs) simp_all

lemma one_hot_valid:
  assumes "labs \<noteq> []" and "list_all (\<lambda>l. 0 \<le> l \<and> l < int C) labs"
  shows "one_hot labs C = Inr (map (\<lambda>l. map (\<lambda>j. if int j = l then 1 else 0) [0..<C]) labs)"
proof -
  have "\<not> list_ex (\<lambda>l. l < 0) labs" and "\<not> list_ex (\<lambda>l. int C \<le> l) labs"
    using assms(2) by (auto simp: list_all_iff list_ex_iff)
  then show ?thesis
    using assms(1) by (simp add: one_hot_def)
qed

lemma one_hot_invalid:
  assumes "\<not> list_all (\<lambda>l. 0 \<le> l \<and> l < int C) labs"
  shows "one_hot labs C = Inl RuntimeError"
proof -
  obtain l where l: "l \<in> set labs" and bad: "l < 0 \<or> int C \<le> l"
    using assms by (auto simp: list_all_iff not_le not_less)
  have "labs \<noteq> []"
    using l by auto
  moreover have "list_ex (\<lambda>l. l < 0) labs \<or> list_ex (\<lambda>l. int C \<le> l) labs"
    using l bad by (auto simp: list_ex_iff)
  ultimately show ?thesis
    by (auto simp add: one_hot_def)
qed

lemma one_hot_dot:
  assumes "0 \<le> l" and "l < int C" and "length lp = C"
  shows "sum_list (map (\<lambda>(x, y). real_of_int x * y)
           (zip (map (\<lambda>j. if int j = l then 1 else 0) [0..<C]) lp)) = lp ! nat l"
proof -
  have z: "zip (map (\<lambda>j. if int j = l then (1::int) else 0) [0..<C]) lp
             = map (\<lambda>j. (if int j = l then 1 else 0, lp ! j)) [0..<C]"
    using assms(3) by (auto intro!: nth_equalityI)
  have "sum_list (map (\<lambda>(x, y). real_of_int x * y)
           (zip (map (\<lambda>j. if int j = l then 1 else 0) [0..<C]) lp))
        = (\<Sum>j \<leftarrow> [0..<C]. if j = nat l then lp ! j else 0)"
    unfolding z using assms(1) by (auto simp: comp_def intro!: arg_cong [where f = sum_list] map_cong)
  also have "\<dots> = (\<Sum>j \<in> {0..<C}. if j = nat l then lp ! j else 0)"
    by (simp add: interv_sum_list_conv_sum_set_nat)
  also have "\<dots> = lp ! nat l"
  proof -
    have "nat l < C"
      using assms(1,2) by linarith
    then show ?thesis
      by (simp add: sum.delta)
  qed
  finally show ?thesis .
qed

lemma select_by_index:
  "length xs = length bs \<Longrightarrow>
     map fst (filter snd (zip xs bs)) = map ((!) xs) (filter ((!) bs) [0..<length xs])"
proof (induction xs arbitrary: bs rule: rev_induct)
  case Nil
  then show ?case by simp
next
  case (snoc x xs)
  then obtain b bs' where bs: "bs = bs' @ [b]" and len: "length xs = length bs'"
    by (cases bs rule: rev_cases) auto
  have ih: "map fst (filter snd (zip xs bs')) = map ((!) xs) (filter ((!) bs') [0..<length xs])"
    using snoc.IH len by simp
  have z: "zip (xs @ [x]) (bs' @ [b]) = zip xs bs' @ [(x, b)]"
    using len by simp
  have f: "filter ((!) (bs' @ [b])) [0..<length xs] = filter ((!) bs') [0..<length xs]"
    using len by (auto intro!: filter_cong simp: nth_append)
  have m: "map ((!) (xs @ [x])) (filter ((!) bs') [0..<length xs])
             = map ((!) xs) (filter ((!) bs') [0..<length xs])"
    by (auto simp: nth_append)
  have r: "(bs' @ [b]) ! length xs = b"
    using len by (simp add: nth_append)
  show ?case
    unfolding bs by (simp add: z ih f m r)
qed

lemma tensor_mul_rows:
  assumes "length a = length b" and "\<forall>i<length a. length (a ! i) = length (b ! i)"
  shows "tensor_mul a b = Inr (map (\<lambda>(r, s). map (\<lambda>(x, y). of_int x * y) (zip r s)) (zip a b))"
proof -
  have "\<And>p. p \<in> set (zip a b) \<Longrightarrow>
          (case p of (r, s) \<Rightarrow> bnd (broadcast_zip r s) (\<lambda>ps. Inr (map (\<lambda>(x, y). real_of_int x * y) ps)))
            = Inr (case p of (r, s) \<Rightarrow> map (\<lambda>(x, y). real_of_int x * y) (zip r s))"
    using assms by (auto simp: in_set_zip broadcast_zip_same)
  then show ?thesis
    using assms(1) by (simp add: tensor_mul_def broadcast_zip_same sequence_map_cong_Inr)
qed

lemma last_col_width:
  assumes "list_all (\<lambda>r. length r = C + 1) x"
  shows "last_col x = Inr (map (\<lambda>row. row ! C) x)"
proof -
  have "\<not> list_ex (\<lambda>r. r = []) x"
    using assms by (auto simp: list_all_iff list_ex_iff)
  moreover have "last r = r ! C" if "length r = C + 1" for r :: vec
    using that last_conv_nth [of r] by (cases r) auto
  then have "map last x = map (\<lambda>row. row ! C) x"
    using assms by (auto simp: list_all_iff)
  ultimately show ?thesis
    by (simp add: last_col_def)
qed

lemma single_example_loss_nll:
  assumes len: "length labs = length L"
    and width: "list_all (\<lambda>r. length r = C + 1) L"
    and valid: "list_all (\<lambda>l. 0 \<le> l \<and> l < int C) labs"
  shows "map (\<lambda>r. - sum_list r)
           (map (\<lambda>(r, s). map (\<lambda>(x, y). real_of_int x * y) (zip r s))
              (zip (map (\<lambda>l. map (\<lambda>j. if int j = l then 1 else 0) [0..<C]) labs)
                   (map log_softmax (map butlast L))))
         = map (\<lambda>i. nll C (L ! i) (labs ! i)) [0..<length L]"
proof (rule nth_equalityI)
  show "length (map (\<lambda>r. - sum_list r)
           (map (\<lambda>(r, s). map (\<lambda>(x, y). real_of_int x * y) (zip r s))
              (zip (map (\<lambda>l. map (\<lambda>j. if int j = l then 1 else 0) [0..<C]) labs)
                   (map log_softmax (map butlast L)))))
        = length (map (\<lambda>i. nll C (L ! i) (labs ! i)) [0..<length L])"
    using len by simp
next
  fix i
  assume "i < length (map (\<lambda>r. - sum_list r)
           (map (\<lambda>(r, s). map (\<lambda>(x, y). real_of_int x * y) (zip r s))
              (zip (map (\<lambda>l. map (\<lambda>j. if int j = l then 1 else 0) [0..<C]) labs)
                   (map log_softmax (map butlast L)))))"
  then have i: "i < length L"
    using len by simp
  have w: "length (L ! i) = C + 1"
    using width i by (simp add: list_all_length)
  have v: "0 \<le> labs ! i" "labs ! i < int C"
    using valid i len by (simp_all add: list_all_length)
  have b: "butlast (L ! i) = take C (L ! i)"
    using w by (simp add: butlast_conv_take)
  have lw: "length (log_softmax (take C (L ! i))) = C"
    using w by (simp add: log_softmax_def)
  show "map (\<lambda>r. - sum_list r)
           (map (\<lambda>(r, s). map (\<lambda>(x, y). real_of_int x * y) (zip r s))
              (zip (map (\<lambda>l. map (\<lambda>j. if int j = l then 1 else 0) [0..<C]) labs)
                   (map log_softmax (map butlast L)))) ! i
        = map (\<lambda>i. nll C (L ! i) (labs ! i)) [0..<length L] ! i"
    using i len by (simp add: b nll_def one_hot_dot [OF v lw])
qed

lemma dl_supervised_spec:
  assumes "shapes_ok cfg H fwd" and "labels_in_range cfg (b_labels fwd)"
  shows "dl_supervised cfg fwd =
     Inr (supervised_term (length (label_list cfg)) (dis_real_logits fwd) (b_labels fwd)
            (b_label_mask fwd))"
proof -
  define C where "C = length (label_list cfg)"
  define L where "L = dis_real_logits fwd"
  define labs where "labs = b_labels fwd"
  define msk where "msk = b_label_mask fwd"
  have len: "length labs = length L" and mlen: "length msk = length L" and ne: "L \<noteq> []"
    and width: "list_all (\<lambda>r. length r = C + 1) L"
    using assms(1) by (auto simp: shapes_ok_def Let_def C_def L_def labs_def msk_def)
  have valid: "list_all (\<lambda>l. 0 \<le> l \<and> l < int C) labs"
    using assms(2) by (simp add: labels_in_range_def C_def labs_def)
  have labs_ne: "labs \<noteq> []"
    using len ne by auto
  let ?oh = "map (\<lambda>l. map (\<lambda>j. if int j = l then (1::int) else 0) [0..<C]) labs"
  let ?lp = "map log_softmax (map butlast L)"
  have oh: "one_hot labs C = Inr ?oh"
    by (rule one_hot_valid [OF labs_ne valid])
  have rows: "\<forall>i<length ?oh. length (?oh ! i) = length (?lp ! i)"
    using len width by (auto simp: list_all_length log_softmax_def)
  have mul: "tensor_mul ?oh ?lp
      = Inr (map (\<lambda>(r, s). map (\<lambda>(x, y). real_of_int x * y) (zip r s)) (zip ?oh ?lp))"
    by (rule tensor_mul_rows) (use len rows in simp_all)
  let ?sel = "map (\<lambda>i. nll C (L ! i) (labs ! i)) [0..<length L]"
  have sel: "map (\<lambda>r. - sum_list r)
      (map (\<lambda>(r, s). map (\<lambda>(x, y). real_of_int x * y) (zip r s)) (zip ?oh ?lp)) = ?sel"
    by (rule single_example_loss_nll [OF len width valid])
  let ?labeled = "filter (\<lambda>i. msk ! i) [0..<length L]"
  have pick: "masked_select ?sel msk = Inr (map (\<lambda>i. nll C (L ! i) (labs ! i)) ?labeled)"
  proof -
    have "map fst (filter snd (zip ?sel msk)) = map ((!) ?sel) (filter ((!) msk) [0..<length ?sel])"
      by (rule select_by_index) (simp add: mlen)
    also have "\<dots> = map (\<lambda>i. nll C (L ! i) (labs ! i)) ?labeled"
      by (auto intro!: map_cong)
    finally show ?thesis
      by (simp add: masked_select_def broadcast_zip_same mlen)
  qed
  have "dl_supervised cfg fwd =
      Inr (if length (map (\<lambda>i. nll C (L ! i) (labs ! i)) ?labeled) = 0 then PyInt 0
           else Float (sum_list (map (\<lambda>i. nll C (L ! i) (labs ! i)) ?labeled)
                  / real (length (map (\<lambda>i. nll C (L ! i) (labs ! i)) ?labeled))))"
    unfolding dl_supervised_def Let_def
    by (simp only: C_def [symmetric] L_def [symmetric] labs_def [symmetric] msk_def [symmetric]
          oh bnd_Inr mul sel pick)
  also have "\<dots> = Inr (supervised_term C L labs msk)"
    by (simp add: supervised_term_def Let_def)
  finally show ?thesis
    by (simp add: C_def L_def labs_def msk_def)
qed

lemma argmax_scan_first_max:
  assumes "is_first_max pre bi" and "bv = pre ! bi" and "i = length pre"
  shows "is_first_max (pre @ xs) (argmax_scan bi bv i xs)"
  using assms
proof (induction xs arbitrary: pre bi bv i)
  case Nil
  then show ?case by simp
next
  case (Cons x xs)
  show ?case
  proof (cases "bv < x")
    case True
    have "is_first_max (pre @ [x]) i"
      using Cons.prems True
      by (auto simp: is_first_max_def nth_append less_Suc_eq intro: le_less_trans less_imp_le)
    from Cons.IH [OF this, of x "Suc i"] show ?thesis
      using True Cons.prems(3) by simp
  next
    case False
    have "is_first_max (pre @ [x]) bi"
      using Cons.prems False
      by (auto simp: is_first_max_def nth_append less_Suc_eq)
    from Cons.IH [OF this, of bv "Suc i"] show ?thesis
      using False Cons.prems by (simp add: is_first_max_def nth_append)
  qed
qed

lemma argmax_first_max:
  assumes "row \<noteq> []"
  shows "is_first_max row (argmax row)"
proof -
  obtain x xs where row: "row = x # xs"
    using assms by (cases row) auto
  have "is_first_max [x] 0"
    by (simp add: is_first_max_def)
  from argmax_scan_first_max [OF this, of x 1 xs] show ?thesis
    by (simp add: argmax_def row)
qed

lemma cross_entropy_valid:
  assumes len: "length labs = length L"
    and width: "list_all (\<lambda>r. length r = C + 1) L"
    and valid: "list_all (\<lambda>l. 0 \<le> l \<and> l < int C) labs"
  shows "cross_entropy (map butlast L) labs = Inr (mean_nll C L labs)"
proof -
  let ?z = "zip (map butlast L) labs"
  have ok: "\<And>row t. (row, t) \<in> set ?z \<Longrightarrow> 0 \<le> t \<and> t < int (length row)"
    using len width valid by (auto simp: in_set_zip list_all_length)
  have no_err: "\<not> list_ex (\<lambda>(row, t). t \<noteq> - 100 \<and> (t < 0 \<or> int (length row) \<le> t)) ?z"
    using ok by (fastforce simp: list_ex_iff)
  have kept: "filter (\<lambda>(row, t). t \<noteq> - 100) ?z = ?z"
    using ok by (fastforce simp: filter_id_conv)
  have terms: "map (\<lambda>(row, t). - (log_softmax row ! nat t)) ?z
      = map (\<lambda>i. nll C (L ! i) (labs ! i)) [0..<length L]"
    using len width
    by (auto intro!: nth_equalityI simp: nll_def list_all_length butlast_conv_take)
  have empty: "?z = [] \<longleftrightarrow> L = []"
    using len by (cases L; cases labs) auto
  have empty': "labs = [] \<longleftrightarrow> L = []"
    using len by (cases L; cases labs) auto
  show ?thesis
    using len by (simp add: cross_entropy_def Let_def no_err kept terms empty empty' mean_nll_def)
qed

lemma torch_max_dim1_ok:
  assumes "list_all (\<lambda>r. length r = C + 1) L" and "0 < C"
  shows "torch_max_dim1 (map butlast L) = Inr (map (\<lambda>r. int (argmax (take C r))) L)"
proof -
  have "\<not> list_ex (\<lambda>r. r = []) (map butlast L)"
    using assms by (auto simp: list_ex_iff list_all_iff butlast_conv_take)
  moreover have "map (\<lambda>r. int (argmax r)) (map butlast L) = map (\<lambda>r. int (argmax (take C r))) L"
    using assms by (auto simp: list_all_iff butlast_conv_take)
  ultimately show ?thesis
    by (simp add: torch_max_dim1_def)
qed

lemma cross_entropy_Inr:
  assumes "cross_entropy inp target = Inr l"
  shows "length inp = length target \<and> is_float l
     \<and> list_all (\<lambda>t. t = - 100 \<or> 0 \<le> t) target"
proof -
  let ?bad = "\<lambda>(row, t). t \<noteq> - 100 \<and> (t < 0 \<or> int (length row) \<le> t)"
  have len: "length inp = length target"
    using assms by (cases "length inp = length target") (simp_all add: cross_entropy_def)
  have ok: "\<not> list_ex ?bad (zip inp target)"
    using assms len by (cases "list_ex ?bad (zip inp target)") (simp_all add: cross_entropy_def)
  have "t = - 100 \<or> 0 \<le> t" if t: "t \<in> set target" for t
  proof -
    obtain row where "(row, t) \<in> set (zip inp target)"
      using in_set_impl_in_set_zip2 [OF len t] by blast
    with ok have "\<not> ?bad (row, t)"
      unfolding list_ex_iff by blast
    then show ?thesis
      by auto
  qed
  then have tgt: "list_all (\<lambda>t. t = - 100 \<or> 0 \<le> t) target"
    unfolding list_all_iff by blast
  have "l = NonFinite \<or> (\<exists>x. l = Float x)"
    using assms len ok by (simp add: cross_entropy_def Let_def split: if_splits) blast
  then have "is_float l"
    by auto
  with len tgt show ?thesis
    by simp
qed

lemma torch_max_dim1_length: "torch_max_dim1 x = Inr p \<Longrightarrow> length p = length x"
  by (auto simp: torch_max_dim1_def split: if_splits)

section \<open>Facts about train_step\<close>

lemma mean_dim0_batch_mean:
  assumes "x \<noteq> []" and "list_all (\<lambda>r. length r = H) x"
  shows "mean_dim0 x = map (batch_mean x) [0..<H]"
proof -
  obtain r rs where x: "x = r # rs"
    using assms(1) by (cases x) auto
  have "length r = H"
    using assms(2) x by simp
  then show ?thesis
    by (simp add: mean_dim0_def x batch_mean_def)
qed

lemma zip_same_index: "zip (map f xs) (map g xs) = map (\<lambda>j. (f j, g j)) xs"
  by (induction xs) simp_all

lemma generator_loss_spec:
  assumes "shapes_ok cfg H fwd"
  shows "generator_loss_of cfg fwd =
     Inr (sc_add (adversarial_term (epsilon cfg) (length (label_list cfg)) (dis_fake_probs fwd))
            (feature_matching_term H (dis_real_features fwd) (dis_fake_features fwd)))"
proof -
  have lc: "last_col (dis_fake_probs fwd)
              = Inr (map (\<lambda>row. row ! length (label_list cfg)) (dis_fake_probs fwd))"
    using assms by (intro last_col_width) (simp add: shapes_ok_def Let_def)
  have r: "mean_dim0 (dis_real_features fwd) = map (batch_mean (dis_real_features fwd)) [0..<H]"
    using assms by (intro mean_dim0_batch_mean) (simp_all add: shapes_ok_def Let_def)
  have f: "mean_dim0 (dis_fake_features fwd) = map (batch_mean (dis_fake_features fwd)) [0..<H]"
    using assms by (intro mean_dim0_batch_mean) (simp_all add: shapes_ok_def Let_def)
  show ?thesis
    by (simp add: generator_loss_of_def lc r f zip_same_index adversarial_term_def
          feature_matching_term_def comp_def)
qed

lemma discriminator_loss_spec:
  assumes "shapes_ok cfg H fwd" and "labels_in_range cfg (b_labels fwd)"
  shows "discriminator_loss_of cfg fwd =
     Inr (sc_add
           (sc_add
             (supervised_term (length (label_list cfg)) (dis_real_logits fwd) (b_labels fwd)
                (b_label_mask fwd))
             (unsupervised_real (epsilon cfg) (length (label_list cfg)) (dis_real_probs fwd)))
           (unsupervised_fake (epsilon cfg) (length (label_list cfg)) (dis_fake_probs fwd)))"
proof -
  have lr: "last_col (dis_real_probs fwd)
              = Inr (map (\<lambda>row. row ! length (label_list cfg)) (dis_real_probs fwd))"
    using assms(1) by (intro last_col_width) (simp add: shapes_ok_def Let_def)
  have lf: "last_col (dis_fake_probs fwd)
              = Inr (map (\<lambda>row. row ! length (label_list cfg)) (dis_fake_probs fwd))"
    using assms(1) by (intro last_col_width) (simp add: shapes_ok_def Let_def)
  show ?thesis
    by (simp add: discriminator_loss_of_def dl_supervised_spec [OF assms] lr lf
          unsupervised_real_def unsupervised_fake_def comp_def)
qed

lemma discriminator_loss_invalid:
  assumes "\<not> labels_in_range cfg (b_labels fwd)"
  shows "discriminator_loss_of cfg fwd = Inl RuntimeError"
  using assms
  by (simp add: discriminator_loss_of_def dl_supervised_def labels_in_range_def one_hot_invalid)

lemma supervised_term_unlabeled:
  assumes "length msk = length L" and "list_all (\<lambda>m. \<not> m) msk"
  shows "supervised_term C L labs msk = PyInt 0"
proof -
  have "filter (\<lambda>i. msk ! i) [0..<length L] = []"
    using assms by (auto simp: filter_empty_conv list_all_length)
  then show ?thesis
    by (simp add: supervised_term_def)
qed

lemma sc_add_zero_neg_mean: "sc_add (PyInt 0) (sc_neg (torch_mean v)) = sc_neg (torch_mean v)"
  by (simp add: torch_mean_def)

lemma train_step_forward_ok:
  assumes labs: "labels batch = Some labs" and lmask: "label_mask batch = Some lmask"
    and B: "B = length (input_ids batch)" "0 < B"
    and enc: "encoder env Train (input_ids batch) (input_mask batch) (params st) = (out, p1)"
    and tok: "list_all (\<lambda>s. s \<noteq> []) out"
    and noise: "uniform_noise env B (generator_noise_size cfg) p1 = (z, p2)"
    and gen: "generator env Train z p2 = (g, p3)"
    and width: "length (hd (map hd out)) = length (hd g)"
    and disc: "discriminator env Train (map hd out @ g) p3 = ((F, L, P), p4)"
    and rows: "length F = 2 * B" "length L = 2 * B" "length P = 2 * B"
  shows "train_step_forward env cfg batch st =
     Inr (\<lparr>b_labels = labs, b_label_mask = lmask,
           dis_real_features = take B F, dis_fake_features = drop B F,
           dis_real_logits = take B L, dis_fake_logits = drop B L,
           dis_real_probs = take B P, dis_fake_probs = drop B P\<rparr>,
          st\<lparr>params := p4,
             calls := calls st @ [EncoderCall Train (input_ids batch) (input_mask batch),
                                  GeneratorCall Train z,
                                  DiscriminatorCall Train (map hd out @ g)]\<rparr>)"
proof -
  have ft: "first_token out = Inr (map hd out)"
    using tok by (auto simp: first_token_def list_all_iff list_ex_iff)
  have cat: "torch_cat (map hd out) g = Inr (map hd out @ g)"
    using width by (simp add: torch_cat_def)
  have sF: "split2 F B = Inr (take B F, drop B F)"
    and sL: "split2 L B = Inr (take B L, drop B L)"
    and sP: "split2 P B = Inr (take B P, drop B P)"
    using B(2) rows by (simp_all add: split2_halves)
  show ?thesis
    unfolding train_step_forward_def
    by (simp add: labs lmask B(1) [symmetric] run_encoder_def enc ft generate_noise_def noise
          run_generator_def gen cat run_discriminator_def disc sF sL sP)
qed

lemma train_step_calls:
  assumes "train_step env cfg batch st = Inr (r, st2)"
    and "train_step_forward env cfg batch st = Inr (fwd, st1)"
  shows "calls st2 = calls st1"
  using assms by (auto simp: train_step_def bnd_eq_Inr run_optimizers_def)

text \<open>
  On a batch of no example the forward pass raises, whatever the modules return:
  \<^verbatim>\<open>torch.split\<close> with a split size of 0 gives one chunk or an error, never two chunks.
\<close>

lemma train_step_forward_empty_batch:
  assumes "input_ids batch = []"
  shows "\<exists>e. train_step_forward env cfg batch st = Inl e"
proof (cases "train_step_forward env cfg batch st")
  case (Inl e)
  then show ?thesis by simp
next
  case (Inr r)
  then have False
    using assms
    by (auto simp: train_step_forward_def bnd_eq_Inr split2_zero Let_def
          split: option.splits prod.splits) (metis surj_pair)
  then show ?thesis ..
qed

lemma example_forward_pass_any:
  fixes st :: "nat trainer"
  shows "train_step_forward example_models example_config (example_batch (Some labs) (Some msk)) st
   = Inr (example_forward labs msk, st\<lparr>calls := calls st @ example_calls\<rparr>)"
proof -
  have "train_step_forward example_models example_config (example_batch (Some labs) (Some msk)) st
   = Inr (\<lparr>b_labels = labs, b_label_mask = msk,
           dis_real_features = take 2 [[1, 3], [1, 3], [0, 3], [0, 3]],
           dis_fake_features = drop 2 [[1, 3], [1, 3], [0, 3], [0, 3]],
           dis_real_logits = take 2 [[0, 0, 0], [0, 0, 0], [0, 0, 0], [0, 0, 0]],
           dis_fake_logits = drop 2 [[0, 0, 0], [0, 0, 0], [0, 0, 0], [0, 0, 0]],
           dis_real_probs = take 2 [[1 / 4, 1 / 4, 1 / 2], [1 / 4, 1 / 4, 1 / 2],
                                    [1 / 4, 1 / 4, 1 / 2], [1 / 4, 1 / 4, 1 / 2]],
           dis_fake_probs = drop 2 [[1 / 4, 1 / 4, 1 / 2], [1 / 4, 1 / 4, 1 / 2],
                                    [1 / 4, 1 / 4, 1 / 2], [1 / 4, 1 / 4, 1 / 2]]\<rparr>,
          st\<lparr>params := params st,
             calls := calls st
               @ [EncoderCall Train (input_ids (example_batch (Some labs) (Some msk)))
                    (input_mask (example_batch (Some labs) (Some msk))),
                  GeneratorCall Train [[1 / 2], [1 / 2]],
                  DiscriminatorCall Train (map hd [[[1, 2]], [[1, 2]]] @ [[0, 0], [0, 0]])]\<rparr>)"
    by (rule train_step_forward_ok
          [where B = 2 and ?p1.0 = "params st" and ?p2.0 = "params st" and ?p3.0 = "params st"])
      (simp_all add: example_models_def example_config_def example_batch_def numeral_2_eq_2)
  then show ?thesis
    by (simp add: example_forward_def example_calls_def example_batch_def numeral_2_eq_2)
qed

lemma example_forward_pass:
  "train_step_forward example_models example_config (example_batch (Some labs) (Some msk))
     example_trainer
   = Inr (example_forward labs msk, \<lparr>params = 0, calls = example_calls\<rparr>)"
  by (simp add: example_forward_pass_any example_trainer_def)

lemma example_shapes: "shapes_ok example_config 2 (example_forward [l1, l2] [m1, m2])"
  by (simp add: shapes_ok_def example_config_def example_forward_def)

lemma example_train_step:
  fixes st :: "nat trainer"
  shows "train_step example_models example_config
      (example_batch (Some [0, 1]) (Some [True, False])) st
    = Inr (\<lparr>generator_loss = Float (- ln (51 / 100) + 1 / 2),
            discriminator_loss = Float (ln 2 - ln (51 / 100) - ln (51 / 100))\<rparr>,
           st\<lparr>params := Suc (params st), calls := calls st @ example_calls\<rparr>)"
proof -
  have lab: "labels_in_range example_config (b_labels (example_forward [0, 1] [True, False]))"
    by (simp add: labels_in_range_def example_config_def example_forward_def)
  have g: "generator_loss_of example_config (example_forward [0, 1] [True, False])
      = Inr (Float (- ln (51 / 100) + 1 / 2))"
    unfolding generator_loss_spec [OF example_shapes]
    by (simp add: example_config_def example_forward_def adversarial_term_def
          feature_matching_term_def batch_mean_def torch_mean_def torch_log_def upt_rec)
  have d: "discriminator_loss_of example_config (example_forward [0, 1] [True, False])
      = Inr (Float (ln 2 - ln (51 / 100) - ln (51 / 100)))"
    unfolding discriminator_loss_spec [OF example_shapes lab]
    by (simp add: example_config_def example_forward_def supervised_term_def nll_def
          log_softmax_def unsupervised_real_def unsupervised_fake_def torch_mean_def
          torch_log_def upt_rec)
  have ou: "optimizer_update example_models = Suc"
    by (simp add: example_models_def)
  show ?thesis
    by (simp add: train_step_def example_forward_pass_any g d run_optimizers_def ou)
qed

section \<open>Facts about val_step\<close>

lemma val_step_ok:
  assumes enc: "encoder env Eval (input_ids batch) (input_mask batch) (params st) = (out, p1)"
    and tok: "list_all (\<lambda>s. s \<noteq> []) out"
    and disc: "discriminator env Eval (map hd out) p1 = ((F, L, P), p2)"
    and width: "list_all (\<lambda>r. length r = C + 1) L" and C: "0 < C"
  shows "val_step env batch True st =
           Inr ((PyInt 0, map (\<lambda>r. int (argmax (take C r))) L, None, P),
                st\<lparr>params := p2,
                   calls := calls st @ [EncoderCall Eval (input_ids batch) (input_mask batch),
                                        DiscriminatorCall Eval (map hd out)]\<rparr>)"
    and "labels batch = Some labs \<Longrightarrow> length labs = length L \<Longrightarrow>
         list_all (\<lambda>l. 0 \<le> l \<and> l < int C) labs \<Longrightarrow>
         val_step env batch False st =
           Inr ((mean_nll C L labs, map (\<lambda>r. int (argmax (take C r))) L, Some labs, P),
                st\<lparr>params := p2,
                   calls := calls st @ [EncoderCall Eval (input_ids batch) (input_mask batch),
                                        DiscriminatorCall Eval (map hd out)]\<rparr>)"
proof -
  have ft: "first_token out = Inr (map hd out)"
    using tok by (auto simp: first_token_def list_all_iff list_ex_iff)
  note mx = torch_max_dim1_ok [OF width C]
  show "val_step env batch True st =
           Inr ((PyInt 0, map (\<lambda>r. int (argmax (take C r))) L, None, P),
                st\<lparr>params := p2,
                   calls := calls st @ [EncoderCall Eval (input_ids batch) (input_mask batch),
                                        DiscriminatorCall Eval (map hd out)]\<rparr>)"
    by (simp add: val_step_def run_encoder_def enc ft run_discriminator_def disc mx)
  assume labs: "labels batch = Some labs" and len: "length labs = length L"
    and valid: "list_all (\<lambda>l. 0 \<le> l \<and> l < int C) labs"
  note ce = cross_entropy_valid [OF len width valid]
  show "val_step env batch False st =
           Inr ((mean_nll C L labs, map (\<lambda>r. int (argmax (take C r))) L, Some labs, P),
                st\<lparr>params := p2,
                   calls := calls st @ [EncoderCall Eval (input_ids batch) (input_mask batch),
                                        DiscriminatorCall Eval (map hd out)]\<rparr>)"
    by (simp add: val_step_def run_encoder_def enc ft run_discriminator_def disc mx labs ce)
qed

lemma val_step_False_Inr:
  assumes "val_step env b False st = Inr (r, st')"
  shows "\<exists>labs. labels b = Some labs \<and> step_ground_truths r = Some labs
     \<and> length (step_predictions r) = length labs \<and> is_float (step_loss r)
     \<and> list_all (\<lambda>t. t = - 100 \<or> 0 \<le> t) labs"
proof -
  obtain labs where labs: "labels b = Some labs"
    using assms by (cases "labels b") (auto simp: val_step_def)
  obtain out st1 where enc: "run_encoder env Eval (input_ids b) (input_mask b) st = (out, st1)"
    by (cases "run_encoder env Eval (input_ids b) (input_mask b) st") auto
  obtain hidden where ft: "first_token out = Inr hidden"
    using assms by (cases "first_token out") (auto simp: val_step_def labs enc)
  obtain F L P st2 where disc: "run_discriminator env Eval hidden st1 = ((F, L, P), st2)"
    by (cases "run_discriminator env Eval hidden st1") auto
  obtain l where ce: "cross_entropy (map butlast L) labs = Inr l"
    using assms by (cases "cross_entropy (map butlast L) labs")
      (auto simp: val_step_def labs enc ft disc)
  obtain p where mx: "torch_max_dim1 (map butlast L) = Inr p"
    using assms by (cases "torch_max_dim1 (map butlast L)")
      (auto simp: val_step_def labs enc ft disc ce)
  have r: "r = (l, p, Some labs, P)"
    using assms by (simp add: val_step_def labs enc ft disc ce mx)
  show ?thesis
    using cross_entropy_Inr [OF ce] torch_max_dim1_length [OF mx]
    by (simp add: labs r step_ground_truths_def step_predictions_def step_loss_def)
qed



lemma example_val_step:
  fixes st :: "nat trainer"
  shows "val_step example_models (example_batch (Some [0, 1]) msk) False st
    = Inr ((Float (ln 2), [0, 0], Some [0, 1],
            [[1 / 4, 1 / 4, 1 / 2], [1 / 4, 1 / 4, 1 / 2]]),
           st\<lparr>calls := calls st @ example_val_calls\<rparr>)"
proof -
  have "val_step example_models (example_batch (Some [0, 1]) msk) False st
    = Inr ((mean_nll 2 [[0, 0, 0], [0, 0, 0]] [0, 1],
            map (\<lambda>r. int (argmax (take 2 r))) [[0, 0, 0], [0, 0, 0]], Some [0, 1],
            [[1 / 4, 1 / 4, 1 / 2], [1 / 4, 1 / 4, 1 / 2]]),
           st\<lparr>params := params st,
              calls := calls st
                @ [EncoderCall Eval (input_ids (example_batch (Some [0, 1]) msk))
                     (input_mask (example_batch (Some [0, 1]) msk)),
                   DiscriminatorCall Eval (map hd [[[1, 2]], [[1, 2]]])]\<rparr>)"
    by (rule val_step_ok(2) [where ?p1.0 = "params st" and F = "[[1, 3], [1, 3]]"])
      (simp_all add: example_models_def example_batch_def)
  then show ?thesis
    by (simp add: example_val_calls_def example_batch_def mean_nll_def nll_def log_softmax_def
          argmax_def upt_rec)
qed

section \<open>Facts about the epochs and the metrics\<close>

lemma count_matches:
  "length p = length g \<Longrightarrow>
     length (filter (\<lambda>(x, y). x = y) (zip p g))
       = length (filter (\<lambda>i. p ! i = g ! i) [0..<length p])"
  unfolding length_filter_conv_card
  by (rule arg_cong [where f = card]) auto

lemma np_equal_same:
  "length p = length g \<Longrightarrow> np_equal strict p g = Inr (map (\<lambda>(x, y). x = y) (zip p g))"
  by (simp add: np_equal_def broadcast_zip_same)

lemma train_loop_steps:
  "train_steps env cfg bs st = Inr (ls, st') \<Longrightarrow>
     train_loop env cfg bs (ga, da) st =
       Inr ((foldl sc_add ga (map generator_loss ls),
             foldl sc_add da (map discriminator_loss ls)), st')"
proof (induction bs arbitrary: st ga da ls)
  case Nil
  then show ?case by simp
next
  case (Cons b bs)
  from Cons.prems obtain l st1 ls1 where
    step: "train_step env cfg b st = Inr (l, st1)" and
    rest: "train_steps env cfg bs st1 = Inr (ls1, st')" and
    ls: "ls = l # ls1"
    by (auto simp: bnd_eq_Inr)
  show ?case
    using Cons.IH [OF rest] by (simp add: step ls)
qed

lemma sc_value_add:
  "sc_value (sc_add a b) =
     (case sc_value a of None \<Rightarrow> None
      | Some x \<Rightarrow> (case sc_value b of None \<Rightarrow> None | Some y \<Rightarrow> Some (x + y)))"
  by (cases a; cases b) simp_all

lemma sc_value_foldl:
  "sc_value (foldl sc_add a xs) =
     (case sc_value a of None \<Rightarrow> None
      | Some x \<Rightarrow> (case those (map sc_value xs) of None \<Rightarrow> None
                  | Some vs \<Rightarrow> Some (x + sum_list vs)))"
proof (induction xs arbitrary: a)
  case Nil
  then show ?case by (simp split: option.splits)
next
  case (Cons x xs)
  show ?case
    by (simp add: Cons.IH sc_value_add split: option.splits)
qed

lemma py_truediv_pos:
  "0 < n \<Longrightarrow>
     py_truediv s n = Inr (case sc_value s of None \<Rightarrow> NonFinite | Some v \<Rightarrow> Float (v / real n))"
  by (cases s) simp_all

lemma mean_of_foldl:
  "xs \<noteq> [] \<Longrightarrow> py_truediv (foldl sc_add (PyInt 0) xs) (length xs) = Inr (arithmetic_mean xs)"
  by (simp add: py_truediv_pos sc_value_foldl arithmetic_mean_def split: option.splits)

lemma train_steps_length:
  "train_steps env cfg bs st = Inr (ls, st') \<Longrightarrow> length ls = length bs"
  by (induction bs arbitrary: st ls) (auto simp: bnd_eq_Inr)

lemma train_epoch_mean:
  assumes "train_dataloader \<noteq> []"
    and "train_steps env cfg train_dataloader st = Inr (ls, st')"
  shows "train_epoch env cfg train_dataloader st =
     Inr (\<lparr>generator_loss = arithmetic_mean (map generator_loss ls),
           discriminator_loss = arithmetic_mean (map discriminator_loss ls)\<rparr>, st')"
proof -
  have n: "length train_dataloader = length ls" and ne: "ls \<noteq> []"
    using assms train_steps_length [OF assms(2)] by auto
  have g: "py_truediv (foldl sc_add (PyInt 0) (map generator_loss ls)) (length train_dataloader)
             = Inr (arithmetic_mean (map generator_loss ls))"
    using mean_of_foldl [of "map generator_loss ls"] ne n by simp
  have d: "py_truediv (foldl sc_add (PyInt 0) (map discriminator_loss ls)) (length train_dataloader)
             = Inr (arithmetic_mean (map discriminator_loss ls))"
    using mean_of_foldl [of "map discriminator_loss ls"] ne n by simp
  show ?thesis
    by (simp add: train_epoch_def train_loop_steps [OF assms(2)] g d)
qed

lemma val_loop_steps:
  "val_loop env bs (a, ps, gs, prs) st =
     (case val_steps env bs st of
        Inl e \<Rightarrow> Inl e
      | Inr (rs, st') \<Rightarrow>
          Inr ((foldl sc_add a (map step_loss rs),
                ps @ concat (map step_predictions rs),
                gs @ concat (map (\<lambda>r. the (step_ground_truths r)) rs),
                prs @ concat (map step_probs rs)), st'))"
proof (induction bs arbitrary: a ps gs prs st)
  case Nil
  then show ?case by simp
next
  case (Cons b bs)
  show ?case
  proof (cases "val_step env b False st")
    case (Inl e)
    then show ?thesis by simp
  next
    case (Inr v)
    obtain l p g pr st1 where v: "v = ((l, p, g, pr), st1)"
      by (cases v) auto
    from val_step_False_Inr [OF Inr [unfolded v]] obtain labs where g: "g = Some labs"
      by (auto simp: step_ground_truths_def)
    show ?thesis
      by (cases "val_steps env bs st1")
        (auto simp: Inr v g Cons.IH step_loss_def step_predictions_def step_ground_truths_def
           step_probs_def)
  qed
qed

lemma val_steps_props:
  assumes "val_steps env bs st = Inr (rs, st')"
  shows "length rs = length bs \<and> map step_ground_truths rs = map labels bs
     \<and> list_all (\<lambda>b. labels b \<noteq> None) bs
     \<and> list_all (\<lambda>r. is_float (step_loss r)) rs
     \<and> list_all (\<lambda>r. length (step_predictions r) = length (the (step_ground_truths r))) rs
     \<and> list_all (\<lambda>b. list_all (\<lambda>t. t = - 100 \<or> 0 \<le> t) (the (labels b))) bs"
  using assms
proof (induction bs arbitrary: st rs)
  case Nil
  then show ?case by simp
next
  case (Cons b bs)
  from Cons.prems obtain r st1 rs1 where
    step: "val_step env b False st = Inr (r, st1)" and
    rest: "val_steps env bs st1 = Inr (rs1, st')" and
    rs: "rs = r # rs1"
    by (auto simp: bnd_eq_Inr)
  show ?case
    using Cons.IH [OF rest] val_step_False_Inr [OF step] by (auto simp: rs)
qed


lemma foldl_sc_add_float:
  assumes "xs \<noteq> []" and "list_all is_float xs"
  shows "is_float (foldl sc_add a xs)"
proof -
  have step: "is_float (sc_add a x)" if "is_float x" for a x
    using that by (cases a; cases x) simp_all
  have acc: "is_float (foldl sc_add a xs)" if "is_float a" "list_all is_float xs" for a xs
    using that by (induction xs arbitrary: a) (simp_all add: step)
  obtain x xs' where xs: "xs = x # xs'"
    using assms(1) by (cases xs) auto
  show ?thesis
    using assms(2) by (simp add: xs acc step)
qed

lemma div_item_float: "is_float a \<Longrightarrow> div_item a n = py_truediv a n"
  by (cases a) (simp_all add: div_item_def)

lemma length_concat_eq:
  "list_all (\<lambda>r. length (f r) = length (g r)) rs \<Longrightarrow>
     length (concat (map f rs)) = length (concat (map g rs))"
  by (induction rs) simp_all

lemma compute_metrics_same_length:
  "length p = length g \<Longrightarrow> p \<noteq> [] \<Longrightarrow>
     compute_metrics strict p g = Inr (Float (fraction_correct p g))"
  by (auto simp add: compute_metrics_def np_equal_same count_matches fraction_correct_def)

lemma torch_stack_ok: "xs \<noteq> [] \<Longrightarrow> torch_stack xs = Inr xs"
  by (simp add: torch_stack_def)

lemma val_epoch_steps:
  assumes steps: "val_steps env dl st = Inr (rs, st')"
    and ne: "concat (map step_predictions rs) \<noteq> []"
  shows "val_epoch env strict dl mode st =
     (if mode = ''inference''
      then bnd (torch_stack_rows (concat (map step_probs rs))) (\<lambda>stacked.
        Inr (\<lparr>validation_accuracy =
                 Float (fraction_correct (concat (map step_predictions rs))
                          (concat (map (\<lambda>r. the (step_ground_truths r)) rs))),
               validation_loss = arithmetic_mean (map step_loss rs),
               extras = Some (concat (map step_predictions rs),
                              concat (map (\<lambda>r. the (step_ground_truths r)) rs), stacked)\<rparr>, st'))
      else Inr (\<lparr>validation_accuracy =
                    Float (fraction_correct (concat (map step_predictions rs))
                             (concat (map (\<lambda>r. the (step_ground_truths r)) rs))),
                  validation_loss = arithmetic_mean (map step_loss rs),
                  extras = None\<rparr>, st'))"
proof -
  let ?preds = "concat (map step_predictions rs)"
  let ?gts = "concat (map (\<lambda>r. the (step_ground_truths r)) rs)"
  note props = val_steps_props [OF steps]
  have loop: "val_loop env dl (PyInt 0, [], [], []) st =
      Inr ((foldl sc_add (PyInt 0) (map step_loss rs), ?preds, ?gts,
            concat (map step_probs rs)), st')"
    by (simp add: val_loop_steps steps)
  have len: "length ?preds = length ?gts"
    using props by (intro length_concat_eq) simp
  then have gne: "?gts \<noteq> []"
    using ne by (metis length_0_conv)
  have rne: "map step_loss rs \<noteq> []"
    using ne by auto
  have fl: "list_all is_float (map step_loss rs)"
    using props by (simp add: list_all_iff)
  have n: "length dl = length (map step_loss rs)"
    using props by simp
  have dv: "div_item (foldl sc_add (PyInt 0) (map step_loss rs)) (length dl)
      = Inr (arithmetic_mean (map step_loss rs))"
  proof -
    have "is_float (foldl sc_add (PyInt 0) (map step_loss rs))"
      by (rule foldl_sc_add_float [OF rne fl])
    then show ?thesis
      unfolding n by (simp only: div_item_float mean_of_foldl [OF rne])
  qed
  note cm = compute_metrics_same_length [OF len ne, of strict]
  note sp = torch_stack_ok [OF ne] and sg = torch_stack_ok [OF gne]
  show ?thesis
    unfolding val_epoch_def loop by (simp only: bnd_Inr prod.case sp sg dv cm)
qed

lemma val_epoch_Inr:
  assumes "val_epoch env strict dl mode st = Inr (s, st')"
  shows "\<exists>rs. val_steps env dl st = Inr (rs, st') \<and> concat (map step_predictions rs) \<noteq> []"
proof -
  obtain v where loop: "val_loop env dl (PyInt 0, [], [], []) st = Inr v"
    using assms by (cases "val_loop env dl (PyInt 0, [], [], []) st") (simp_all add: val_epoch_def)
  then obtain rs st1 where steps: "val_steps env dl st = Inr (rs, st1)"
    by (cases "val_steps env dl st") (auto simp: val_loop_steps)
  have v: "v = ((foldl sc_add (PyInt 0) (map step_loss rs), concat (map step_predictions rs),
      concat (map (\<lambda>r. the (step_ground_truths r)) rs), concat (map step_probs rs)), st1)"
    using loop by (simp add: val_loop_steps steps)
  have ne: "concat (map step_predictions rs) \<noteq> []"
  proof
    assume e: "concat (map step_predictions rs) = []"
    have "val_epoch env strict dl mode st = Inl RuntimeError"
      unfolding val_epoch_def loop v by (simp only: bnd_Inr prod.case e torch_stack_def) simp
    with assms show False
      by simp
  qed
  have "st1 = st'"
  proof (cases "mode = ''inference''")
    case True
    with assms show ?thesis
      unfolding val_epoch_steps [OF steps ne]
      by (cases "torch_stack_rows (concat (map step_probs rs))") simp_all
  next
    case False
    with assms show ?thesis
      unfolding val_epoch_steps [OF steps ne] by simp
  qed
  then show ?thesis
    using steps ne by blast
qed





section \<open>Facts about save_model and train\<close>





















section \<open>The claims\<close>

text \<open>
  C1. Whenever the forward pass of \<^verbatim>\<open>train_step\<close> has produced partitions of the shapes
  of the data model and the labels are indices into the label list, \<^verbatim>\<open>train_step\<close>
  returns, and the discriminator loss it returns is the sum of three terms: the supervised
  term (negative log-likelihood under the log-softmax of the first \<open>C\<close> columns of the real
  logits, averaged over the examples whose label mask is true), minus the mean of
  \<open>log (1 - p + \<epsilon>)\<close> over the fake-class probabilities \<open>p\<close> of the real partition, and minus
  the mean of \<open>log (p + \<epsilon>)\<close> over those of the fake partition.
\<close>

theorem train_step_discriminator_loss:
  assumes "train_step_forward env cfg batch st = Inr (fwd, st1)"
    and "shapes_ok cfg H fwd"
    and "labels_in_range cfg (b_labels fwd)"
  shows "\<exists>r. train_step env cfg batch st = Inr (r, run_optimizers env st1)
     \<and> discriminator_loss r =
         sc_add
           (sc_add
             (supervised_term (length (label_list cfg)) (dis_real_logits fwd) (b_labels fwd)
                (b_label_mask fwd))
             (unsupervised_real (epsilon cfg) (length (label_list cfg)) (dis_real_probs fwd)))
           (unsupervised_fake (epsilon cfg) (length (label_list cfg)) (dis_fake_probs fwd))"
  by (simp add: train_step_def assms(1) generator_loss_spec [OF assms(2)]
        discriminator_loss_spec [OF assms(2,3)])

theorem train_step_discriminator_loss_witness:
  "\<exists>r. train_step example_models example_config (example_batch (Some [0, 1]) (Some [True, False]))
          example_trainer
        = Inr (r, \<lparr>params = 1, calls = example_calls\<rparr>)
     \<and> discriminator_loss r = Float (ln 2 - ln (51 / 100) - ln (51 / 100))"
  using train_step_discriminator_loss
    [OF example_forward_pass [of "[0, 1]" "[True, False]"] example_shapes]
  by (simp add: labels_in_range_def example_config_def example_forward_def run_optimizers_def
        example_models_def supervised_term_def nll_def log_softmax_def unsupervised_real_def
        unsupervised_fake_def torch_mean_def torch_log_def upt_rec)

text \<open>
  C2. Under the same conditions the generator loss that \<^verbatim>\<open>train_step\<close> returns is the
  adversarial term, minus the mean of \<open>log (1 - p + \<epsilon>)\<close> over the fake-class probabilities
  \<open>p\<close> of the fake partition, plus the feature-matching term, the mean over the feature
  columns of the squared difference between the batch mean of the real features and the
  batch mean of the fake features.
\<close>

theorem train_step_generator_loss:
  assumes "train_step_forward env cfg batch st = Inr (fwd, st1)"
    and "shapes_ok cfg H fwd"
    and "labels_in_range cfg (b_labels fwd)"
  shows "\<exists>r. train_step env cfg batch st = Inr (r, run_optimizers env st1)
     \<and> generator_loss r =
         sc_add (adversarial_term (epsilon cfg) (length (label_list cfg)) (dis_fake_probs fwd))
           (feature_matching_term H (dis_real_features fwd) (dis_fake_features fwd))"
  by (simp add: train_step_def assms(1) generator_loss_spec [OF assms(2)]
        discriminator_loss_spec [OF assms(2,3)])

theorem train_step_generator_loss_witness:
  "\<exists>r. train_step example_models example_config (example_batch (Some [0, 1]) (Some [True, False]))
          example_trainer
        = Inr (r, \<lparr>params = 1, calls = example_calls\<rparr>)
     \<and> generator_loss r = Float (- ln (51 / 100) + 1 / 2)"
  using train_step_generator_loss
    [OF example_forward_pass [of "[0, 1]" "[True, False]"] example_shapes]
  by (simp add: labels_in_range_def example_config_def example_forward_def run_optimizers_def
        example_models_def adversarial_term_def feature_matching_term_def batch_mean_def
        torch_mean_def torch_log_def upt_rec)

text \<open>
  C3. When the label mask is false at every position, the supervised term that
  \<^verbatim>\<open>train_step\<close> computes is the integer 0 of the short-circuit of line 149 (no division
  by the number of labeled examples takes place, and nothing is raised), and the discriminator
  loss returned is the sum of the two unsupervised terms.
\<close>

theorem train_step_no_labeled_example:
  assumes "train_step_forward env cfg batch st = Inr (fwd, st1)"
    and "shapes_ok cfg H fwd"
    and "labels_in_range cfg (b_labels fwd)"
    and "list_all (\<lambda>m. \<not> m) (b_label_mask fwd)"
  shows "dl_supervised cfg fwd = Inr (PyInt 0)
     \<and> (\<exists>r. train_step env cfg batch st = Inr (r, run_optimizers env st1)
          \<and> discriminator_loss r =
              sc_add (unsupervised_real (epsilon cfg) (length (label_list cfg)) (dis_real_probs fwd))
                (unsupervised_fake (epsilon cfg) (length (label_list cfg)) (dis_fake_probs fwd)))"
proof -
  have len: "length (b_label_mask fwd) = length (dis_real_logits fwd)"
    using assms(2) by (simp add: shapes_ok_def Let_def)
  have zero: "supervised_term (length (label_list cfg)) (dis_real_logits fwd) (b_labels fwd)
                (b_label_mask fwd) = PyInt 0"
    by (rule supervised_term_unlabeled [OF len assms(4)])
  show ?thesis
    by (simp add: train_step_def assms(1) generator_loss_spec [OF assms(2)]
          discriminator_loss_spec [OF assms(2,3)] dl_supervised_spec [OF assms(2,3)] zero
          unsupervised_real_def sc_add_zero_neg_mean)
qed

theorem train_step_no_labeled_example_witness:
  "dl_supervised example_config (example_forward [0, 1] [False, False]) = Inr (PyInt 0)
   \<and> (\<exists>r. train_step example_models example_config
              (example_batch (Some [0, 1]) (Some [False, False])) example_trainer
            = Inr (r, \<lparr>params = 1, calls = example_calls\<rparr>)
        \<and> discriminator_loss r = Float (- ln (51 / 100) - ln (51 / 100)))"
  using train_step_no_labeled_example
    [OF example_forward_pass [of "[0, 1]" "[False, False]"] example_shapes]
  by (simp add: labels_in_range_def example_config_def example_forward_def run_optimizers_def
        example_models_def unsupervised_real_def unsupervised_fake_def
        torch_mean_def torch_log_def)

text \<open>
  C4. On a batch of \<open>B \<ge> 1\<close> examples, with modules that return one row per input row,
  \<^verbatim>\<open>train_step\<close> calls the discriminator once, on the \<open>B\<close> hidden states followed by the
  \<open>B\<close> generated representations (\<open>2 * B\<close> rows, the real rows first), and every output of
  the discriminator (features, logits, probabilities) is split at row \<open>B\<close>: the real partition
  is its first \<open>B\<close> rows and the fake partition its last \<open>B\<close> rows.
\<close>

theorem train_step_single_discriminator_pass:
  assumes labs: "labels batch = Some labs" and lmask: "label_mask batch = Some lmask"
    and B: "B = length (input_ids batch)" "0 < B"
    and enc: "encoder env Train (input_ids batch) (input_mask batch) (params st) = (out, p1)"
    and out: "length out = B" "list_all (\<lambda>s. s \<noteq> []) out"
    and noise: "uniform_noise env B (generator_noise_size cfg) p1 = (z, p2)"
    and gen: "generator env Train z p2 = (g, p3)" "length g = B"
    and width: "length (hd (map hd out)) = length (hd g)"
    and disc: "discriminator env Train (map hd out @ g) p3 = ((F, L, P), p4)"
    and rows: "length F = 2 * B" "length L = 2 * B" "length P = 2 * B"
  shows "\<exists>fwd st1. train_step_forward env cfg batch st = Inr (fwd, st1)
     \<and> filter is_discriminator_call (calls st1)
         = filter is_discriminator_call (calls st) @ [DiscriminatorCall Train (map hd out @ g)]
     \<and> (\<forall>r st2. train_step env cfg batch st = Inr (r, st2) \<longrightarrow> calls st2 = calls st1)
     \<and> length (map hd out @ g) = 2 * B
     \<and> take B (map hd out @ g) = map hd out \<and> drop B (map hd out @ g) = g
     \<and> dis_real_features fwd = take B F \<and> dis_fake_features fwd = drop B F
     \<and> dis_real_logits fwd = take B L \<and> dis_fake_logits fwd = drop B L
     \<and> dis_real_probs fwd = take B P \<and> dis_fake_probs fwd = drop B P
     \<and> length (dis_real_features fwd) = B \<and> length (dis_fake_features fwd) = B
     \<and> length (dis_real_logits fwd) = B \<and> length (dis_fake_logits fwd) = B
     \<and> length (dis_real_probs fwd) = B \<and> length (dis_fake_probs fwd) = B
     \<and> dis_real_features fwd @ dis_fake_features fwd = F
     \<and> dis_real_logits fwd @ dis_fake_logits fwd = L
     \<and> dis_real_probs fwd @ dis_fake_probs fwd = P"
proof -
  note fwd = train_step_forward_ok [OF labs lmask B enc out(2) noise gen(1) width disc rows]
  show ?thesis
    using out(1) gen(2) rows train_step_calls [OF _ fwd]
    by (simp add: fwd)
qed

theorem train_step_single_discriminator_pass_witness:
  "\<exists>fwd st1. train_step_forward example_models example_config
        (example_batch (Some [0, 1]) (Some [True, False])) example_trainer = Inr (fwd, st1)
     \<and> filter is_discriminator_call (calls st1)
         = [DiscriminatorCall Train [[1, 2], [1, 2], [0, 0], [0, 0]]]
     \<and> dis_real_features fwd = [[1, 3], [1, 3]] \<and> dis_fake_features fwd = [[0, 3], [0, 3]]
     \<and> dis_real_logits fwd = [[0, 0, 0], [0, 0, 0]]
     \<and> dis_fake_probs fwd = [[1 / 4, 1 / 4, 1 / 2], [1 / 4, 1 / 4, 1 / 2]]"
proof -
  let ?b = "example_batch (Some [0, 1]) (Some [True, False])"
  have hyps:
    "labels ?b = Some [0, 1]"
    "label_mask ?b = Some [True, False]"
    "2 = length (input_ids ?b)"
    "0 < (2::nat)"
    "encoder example_models Train (input_ids ?b) (input_mask ?b) (params example_trainer)
       = ([[[1, 2]], [[1, 2]]], 0)"
    "length [[[1, 2::real]], [[1, 2]]] = 2"
    "list_all (\<lambda>s. s \<noteq> []) [[[1, 2::real]], [[1, 2]]]"
    "uniform_noise example_models 2 (generator_noise_size example_config) 0
       = ([[1 / 2], [1 / 2]], 0)"
    "generator example_models Train [[1 / 2], [1 / 2]] 0 = ([[0, 0], [0, 0]], 0)"
    "length [[0, 0::real], [0, 0]] = 2"
    "length (hd (map hd [[[1, 2::real]], [[1, 2]]])) = length (hd [[0, 0::real], [0, 0]])"
    "discriminator example_models Train (map hd [[[1, 2]], [[1, 2]]] @ [[0, 0], [0, 0]]) 0
       = (([[1, 3], [1, 3], [0, 3], [0, 3]],
           [[0, 0, 0], [0, 0, 0], [0, 0, 0], [0, 0, 0]],
           [[1 / 4, 1 / 4, 1 / 2], [1 / 4, 1 / 4, 1 / 2],
            [1 / 4, 1 / 4, 1 / 2], [1 / 4, 1 / 4, 1 / 2]]), 0)"
    "length [[1, 3::real], [1, 3], [0, 3], [0, 3]] = 2 * 2"
    "length [[0, 0, 0::real], [0, 0, 0], [0, 0, 0], [0, 0, 0]] = 2 * 2"
    "length [[1 / 4, 1 / 4, 1 / 2::real], [1 / 4, 1 / 4, 1 / 2],
             [1 / 4, 1 / 4, 1 / 2], [1 / 4, 1 / 4, 1 / 2]] = 2 * 2"
    by (simp_all add: example_models_def example_config_def example_batch_def
          example_trainer_def numeral_2_eq_2)
  have c: "calls example_trainer = []"
    by (simp add: example_trainer_def)
  from train_step_single_discriminator_pass [OF hyps] show ?thesis
    by (simp add: example_forward_pass example_forward_def example_calls_def c)
qed

text \<open>
  C5. \<^verbatim>\<open>val_step\<close> calls the encoder and then the discriminator, in evaluation mode, on
  the hidden states of the batch alone (no call of the generator, one row per example). With
  labels that are indices of the \<open>C\<close> real classes its loss is the cross-entropy between the
  first \<open>C\<close> columns of the logits and the labels; its predictions are the arg-max over the
  first \<open>C\<close> columns of every row of logits; with \<open>inference_mode\<close> it returns the loss 0 and
  no ground truths, and does not read the labels.
\<close>

theorem val_step_result:
  assumes enc: "encoder env Eval (input_ids batch) (input_mask batch) (params st) = (out, p1)"
    and out: "length out = length (input_ids batch)" "list_all (\<lambda>s. s \<noteq> []) out"
    and disc: "discriminator env Eval (map hd out) p1 = ((F, L, P), p2)"
    and width: "list_all (\<lambda>r. length r = C + 1) L" and C: "0 < C"
  shows "\<exists>preds st'.
     val_step env batch True st = Inr ((PyInt 0, preds, None, P), st')
     \<and> (\<forall>labs. labels batch = Some labs \<and> length labs = length L
            \<and> list_all (\<lambda>l. 0 \<le> l \<and> l < int C) labs \<longrightarrow>
          val_step env batch False st = Inr ((mean_nll C L labs, preds, Some labs, P), st'))
     \<and> calls st' = calls st @ [EncoderCall Eval (input_ids batch) (input_mask batch),
                                 DiscriminatorCall Eval (map hd out)]
     \<and> length (map hd out) = length (input_ids batch)
     \<and> length preds = length L
     \<and> (\<forall>i<length L. \<exists>k. preds ! i = int k \<and> is_first_max (take C (L ! i)) k)"
proof -
  let ?preds = "map (\<lambda>r. int (argmax (take C r))) L"
  let ?st = "st\<lparr>params := p2,
                calls := calls st @ [EncoderCall Eval (input_ids batch) (input_mask batch),
                                     DiscriminatorCall Eval (map hd out)]\<rparr>"
  note ok = val_step_ok [OF enc out(2) disc width C]
  have inf: "val_step env batch True st = Inr ((PyInt 0, ?preds, None, P), ?st)"
    by (rule ok(1))
  have sup: "\<forall>labs. labels batch = Some labs \<and> length labs = length L
            \<and> list_all (\<lambda>l. 0 \<le> l \<and> l < int C) labs \<longrightarrow>
          val_step env batch False st = Inr ((mean_nll C L labs, ?preds, Some labs, P), ?st)"
    using ok(2) by blast
  have amax: "\<forall>i<length L. \<exists>k. ?preds ! i = int k \<and> is_first_max (take C (L ! i)) k"
  proof (intro allI impI)
    fix i
    assume i: "i < length L"
    then have "length (L ! i) = C + 1"
      using width by (simp add: list_all_length)
    then have "take C (L ! i) \<noteq> []"
      using C by auto
    then have "is_first_max (take C (L ! i)) (argmax (take C (L ! i)))"
      by (rule argmax_first_max)
    then show "\<exists>k. ?preds ! i = int k \<and> is_first_max (take C (L ! i)) k"
      using i by auto
  qed
  have "val_step env batch True st = Inr ((PyInt 0, ?preds, None, P), ?st)
     \<and> (\<forall>labs. labels batch = Some labs \<and> length labs = length L
            \<and> list_all (\<lambda>l. 0 \<le> l \<and> l < int C) labs \<longrightarrow>
          val_step env batch False st = Inr ((mean_nll C L labs, ?preds, Some labs, P), ?st))
     \<and> calls ?st = calls st @ [EncoderCall Eval (input_ids batch) (input_mask batch),
                                 DiscriminatorCall Eval (map hd out)]
     \<and> length (map hd out) = length (input_ids batch)
     \<and> length ?preds = length L
     \<and> (\<forall>i<length L. \<exists>k. ?preds ! i = int k \<and> is_first_max (take C (L ! i)) k)"
    using inf sup amax out(1) by simp
  then show ?thesis
    by blast
qed

theorem val_step_result_witness:
  "val_step example_models (example_batch (Some [0, 1]) None) True example_trainer
     = Inr ((PyInt 0, [0, 0], None, [[1 / 4, 1 / 4, 1 / 2], [1 / 4, 1 / 4, 1 / 2]]),
            \<lparr>params = 0, calls = example_val_calls\<rparr>)
   \<and> val_step example_models (example_batch (Some [0, 1]) None) False example_trainer
     = Inr ((Float (ln 2), [0, 0], Some [0, 1], [[1 / 4, 1 / 4, 1 / 2], [1 / 4, 1 / 4, 1 / 2]]),
            \<lparr>params = 0, calls = example_val_calls\<rparr>)"
proof -
  let ?b = "example_batch (Some [0, 1]) None"
  have hyps:
    "encoder example_models Eval (input_ids ?b) (input_mask ?b) (params example_trainer)
       = ([[[1, 2]], [[1, 2]]], 0)"
    "length [[[1, 2::real]], [[1, 2]]] = length (input_ids ?b)"
    "list_all (\<lambda>s. s \<noteq> []) [[[1, 2::real]], [[1, 2]]]"
    "discriminator example_models Eval (map hd [[[1, 2]], [[1, 2]]]) 0
       = (([[1, 3], [1, 3]], [[0, 0, 0], [0, 0, 0]],
           [[1 / 4, 1 / 4, 1 / 2], [1 / 4, 1 / 4, 1 / 2]]), 0)"
    "list_all (\<lambda>r. length r = 2 + 1) [[0, 0, 0::real], [0, 0, 0]]"
    "0 < (2::nat)"
    by (simp_all add: example_models_def example_batch_def example_trainer_def)
  from val_step_result [OF hyps] obtain preds st' where
    inf: "val_step example_models ?b True example_trainer
       = Inr ((PyInt 0, preds, None, [[1 / 4, 1 / 4, 1 / 2], [1 / 4, 1 / 4, 1 / 2]]), st')"
    and sup: "\<forall>labs. labels ?b = Some labs \<and> length labs = length [[0, 0, 0::real], [0, 0, 0]]
            \<and> list_all (\<lambda>l. 0 \<le> l \<and> l < int 2) labs \<longrightarrow>
          val_step example_models ?b False example_trainer
            = Inr ((mean_nll 2 [[0, 0, 0], [0, 0, 0]] labs, preds, Some labs,
                    [[1 / 4, 1 / 4, 1 / 2], [1 / 4, 1 / 4, 1 / 2]]), st')"
    by blast
  have "val_step example_models ?b False example_trainer
      = Inr ((mean_nll 2 [[0, 0, 0], [0, 0, 0]] [0, 1], preds, Some [0, 1],
              [[1 / 4, 1 / 4, 1 / 2], [1 / 4, 1 / 4, 1 / 2]]), st')"
    using sup by (simp add: example_batch_def)
  then have p: "preds = [0, 0]" and s: "st' = \<lparr>params = 0, calls = example_val_calls\<rparr>"
    by (simp_all add: example_val_step example_trainer_def)
  show ?thesis
    using inf by (simp add: p s example_val_step example_trainer_def)
qed

text \<open>
  C6. On a dataloader that yields a batch, when every \<^verbatim>\<open>train_step\<close> returns,
  \<^verbatim>\<open>train_epoch\<close> returns the arithmetic means of the generator losses and of the
  discriminator losses of the batches, over the number of batches. \<^verbatim>\<open>val_epoch\<close> returns
  as \<open>validation_loss\<close> the sum of the losses of the batches divided by the number of batches:
  it does so whenever it returns, and it returns in mode \<open>training\<close> as soon as every
  \<^verbatim>\<open>val_step\<close> returns and there is a prediction. Entries are reals, so the means are exact.
\<close>

theorem epoch_mean_losses:
  "(train_dataloader \<noteq> [] \<and> train_steps env cfg train_dataloader st = Inr (ls, st') \<longrightarrow>
      length ls = length train_dataloader
      \<and> train_epoch env cfg train_dataloader st =
          Inr (\<lparr>generator_loss = arithmetic_mean (map generator_loss ls),
                discriminator_loss = arithmetic_mean (map discriminator_loss ls)\<rparr>, st'))
   \<and> (val_steps env val_dataloader vst = Inr (rs, vst')
        \<and> concat (map step_predictions rs) \<noteq> [] \<and> mode \<noteq> ''inference'' \<longrightarrow>
      length rs = length val_dataloader
      \<and> (\<exists>s. val_epoch env strict val_dataloader mode vst = Inr (s, vst')
            \<and> validation_loss s = arithmetic_mean (map step_loss rs)))
   \<and> (val_epoch env strict val_dataloader mode vst = Inr (s, vst') \<longrightarrow>
      (\<exists>rs. val_steps env val_dataloader vst = Inr (rs, vst')
         \<and> length rs = length val_dataloader
         \<and> validation_loss s = arithmetic_mean (map step_loss rs)))"
proof (intro conjI impI)
  assume a: "train_dataloader \<noteq> [] \<and> train_steps env cfg train_dataloader st = Inr (ls, st')"
  then show "length ls = length train_dataloader"
    by (auto dest: train_steps_length)
  from a show "train_epoch env cfg train_dataloader st =
          Inr (\<lparr>generator_loss = arithmetic_mean (map generator_loss ls),
                discriminator_loss = arithmetic_mean (map discriminator_loss ls)\<rparr>, st')"
    by (simp add: train_epoch_mean)
next
  assume a: "val_steps env val_dataloader vst = Inr (rs, vst')
        \<and> concat (map step_predictions rs) \<noteq> [] \<and> mode \<noteq> ''inference''"
  then have steps: "val_steps env val_dataloader vst = Inr (rs, vst')"
    and ne: "concat (map step_predictions rs) \<noteq> []" and mode: "mode \<noteq> ''inference''"
    by simp_all
  show "length rs = length val_dataloader"
    using val_steps_props [OF steps] by simp
  show "\<exists>s. val_epoch env strict val_dataloader mode vst = Inr (s, vst')
            \<and> validation_loss s = arithmetic_mean (map step_loss rs)"
    unfolding val_epoch_steps [OF steps ne] using mode by simp
next
  assume a: "val_epoch env strict val_dataloader mode vst = Inr (s, vst')"
  from val_epoch_Inr [OF a] obtain rs where
    steps: "val_steps env val_dataloader vst = Inr (rs, vst')" and
    ne: "concat (map step_predictions rs) \<noteq> []"
    by blast
  have "validation_loss s = arithmetic_mean (map step_loss rs)"
  proof (cases "mode = ''inference''")
    case True
    with a show ?thesis
      unfolding val_epoch_steps [OF steps ne]
      by (cases "torch_stack_rows (concat (map step_probs rs))") auto
  next
    case False
    with a show ?thesis
      unfolding val_epoch_steps [OF steps ne] by auto
  qed
  then show "\<exists>rs. val_steps env val_dataloader vst = Inr (rs, vst')
         \<and> length rs = length val_dataloader
         \<and> validation_loss s = arithmetic_mean (map step_loss rs)"
    using steps val_steps_props [OF steps] by auto
qed

theorem epoch_mean_losses_witness:
  "train_epoch example_models example_config
      [example_batch (Some [0, 1]) (Some [True, False]),
       example_batch (Some [0, 1]) (Some [True, False])] example_trainer
    = Inr (\<lparr>generator_loss = Float (- ln (51 / 100) + 1 / 2),
            discriminator_loss = Float (ln 2 - ln (51 / 100) - ln (51 / 100))\<rparr>,
           \<lparr>params = 2, calls = example_calls @ example_calls\<rparr>)
   \<and> (\<exists>s. val_epoch example_models True
          [example_batch (Some [0, 1]) None, example_batch (Some [0, 1]) None] ''training''
          example_trainer
        = Inr (s, \<lparr>params = 0, calls = example_val_calls @ example_val_calls\<rparr>)
      \<and> validation_loss s = Float (ln 2))"
proof -
  let ?b = "example_batch (Some [0, 1]) (Some [True, False])"
  let ?l = "\<lparr>generator_loss = Float (- ln (51 / 100) + 1 / 2),
             discriminator_loss = Float (ln 2 - ln (51 / 100) - ln (51 / 100))\<rparr>"
  let ?v = "example_batch (Some [0, 1]) None"
  let ?r = "(Float (ln 2), [0, 0], Some [0, 1], [[1 / 4, 1 / 4, 1 / 2], [1 / 4, 1 / 4, 1 / 2::real]])"
  have t: "train_steps example_models example_config [?b, ?b] example_trainer
      = Inr ([?l, ?l], \<lparr>params = 2, calls = example_calls @ example_calls\<rparr>)"
    by (simp add: example_train_step example_trainer_def)
  have v: "val_steps example_models [?v, ?v] example_trainer
      = Inr ([?r, ?r], \<lparr>params = 0, calls = example_val_calls @ example_val_calls\<rparr>)"
    by (simp add: example_val_step example_trainer_def)
  have m: "arithmetic_mean [Float x, Float x] = Float x" for x
    by (simp add: arithmetic_mean_def)
  have ne: "[?b, ?b] \<noteq> []" "concat (map step_predictions [?r, ?r]) \<noteq> []"
    "''training'' \<noteq> ''inference''"
    by (simp_all add: step_predictions_def)
  note E = epoch_mean_losses
    [where train_dataloader = "[?b, ?b]" and env = example_models and cfg = example_config
       and st = example_trainer and ls = "[?l, ?l]"
       and st' = "\<lparr>params = 2, calls = example_calls @ example_calls\<rparr>"
       and val_dataloader = "[?v, ?v]" and vst = example_trainer and rs = "[?r, ?r]"
       and vst' = "\<lparr>params = 0, calls = example_val_calls @ example_val_calls\<rparr>"
       and mode = "''training''" and strict = True]
  from E t ne(1) have tr: "train_epoch example_models example_config [?b, ?b] example_trainer =
      Inr (\<lparr>generator_loss = arithmetic_mean (map generator_loss [?l, ?l]),
            discriminator_loss = arithmetic_mean (map discriminator_loss [?l, ?l])\<rparr>,
           \<lparr>params = 2, calls = example_calls @ example_calls\<rparr>)"
    by blast
  from E v ne(2,3) have vl: "\<exists>s. val_epoch example_models True [?v, ?v] ''training'' example_trainer
        = Inr (s, \<lparr>params = 0, calls = example_val_calls @ example_val_calls\<rparr>)
      \<and> validation_loss s = arithmetic_mean (map step_loss [?r, ?r])"
    by blast
  show ?thesis
    using tr vl by (simp add: m step_loss_def)
qed




text \<open>
  C8, amended. On two sequences of one length \<^verbatim>\<open>_compute_metrics\<close> returns the fraction of
  the positions where the prediction is the ground truth (NaN on two empty sequences). It has
  no check of the lengths: on two lengths that differ it raises only when neither is 1 and
  NumPy is 1.25 or later. When one length is 1 the comparison broadcasts and a value is
  returned, the number of matches divided by the number of predictions; on an older NumPy two
  lengths that cannot be broadcast give 0, and NaN when there is no prediction.
\<close>

theorem compute_metrics_amended:
  "(length p = length g \<longrightarrow>
      compute_metrics strict p g = Inr (if p = [] then NonFinite else Float (fraction_correct p g)))
   \<and> (length p \<noteq> length g \<and> length p = 1 \<longrightarrow>
      compute_metrics strict p g = Inr (Float (real (length (filter (\<lambda>y. hd p = y) g)))))
   \<and> (length p \<noteq> length g \<and> length g = 1 \<longrightarrow>
      compute_metrics strict p g =
        Inr (if p = [] then NonFinite
             else Float (real (length (filter (\<lambda>x. x = hd g) p)) / real (length p))))
   \<and> (length p \<noteq> length g \<and> length p \<noteq> 1 \<and> length g \<noteq> 1 \<longrightarrow>
      compute_metrics strict p g =
        (if strict then Inl ValueError else Inr (if p = [] then NonFinite else Float 0)))"
proof (intro conjI impI)
  assume "length p = length g"
  then show "compute_metrics strict p g = Inr (if p = [] then NonFinite else Float (fraction_correct p g))"
    by (auto simp add: compute_metrics_def np_equal_same count_matches fraction_correct_def)
next
  assume "length p \<noteq> length g \<and> length p = 1"
  then show "compute_metrics strict p g = Inr (Float (real (length (filter (\<lambda>y. hd p = y) g))))"
    by (simp add: compute_metrics_def np_equal_def broadcast_zip_def filter_map comp_def)
next
  assume "length p \<noteq> length g \<and> length g = 1"
  then show "compute_metrics strict p g =
        Inr (if p = [] then NonFinite
             else Float (real (length (filter (\<lambda>x. x = hd g) p)) / real (length p)))"
    by (simp add: compute_metrics_def np_equal_def broadcast_zip_def filter_map comp_def)
next
  assume "length p \<noteq> length g \<and> length p \<noteq> 1 \<and> length g \<noteq> 1"
  then show "compute_metrics strict p g =
        (if strict then Inl ValueError else Inr (if p = [] then NonFinite else Float 0))"
    by (simp add: compute_metrics_def np_equal_def broadcast_zip_def)
qed

theorem compute_metrics_amended_witness:
  "compute_metrics True [0, 1, 1, 0] [0, 1, 0, 0] = Inr (Float (3 / 4))
   \<and> compute_metrics True [2] [2, 0, 2] = Inr (Float 2)
   \<and> compute_metrics True [2, 0, 2] [2] = Inr (Float (2 / 3))
   \<and> compute_metrics True [2, 0, 2] [2, 0] = Inl ValueError
   \<and> compute_metrics False [2, 0, 2] [2, 0] = Inr (Float 0)"
  using compute_metrics_amended [of "[0, 1, 1, 0]" "[0, 1, 0, 0]" True]
    compute_metrics_amended [of "[2]" "[2, 0, 2]" True]
    compute_metrics_amended [of "[2, 0, 2]" "[2]" True]
    compute_metrics_amended [of "[2, 0, 2]" "[2, 0]" True]
    compute_metrics_amended [of "[2, 0, 2]" "[2, 0]" False]
  by (simp add: fraction_correct_def upt_rec)

text \<open>
  The claim as it was stated fails: one prediction against three ground truths is not
  rejected, and the value returned is 3, which is no fraction.
\<close>

theorem compute_metrics_unequal_counterexample:
  "length [1::int] \<noteq> length [1, 1, 1::int]
   \<and> compute_metrics True [1] [1, 1, 1] = Inr (Float 3)
   \<and> compute_metrics False [1] [1, 1, 1] = Inr (Float 3)"
  by (simp add: compute_metrics_def np_equal_def broadcast_zip_def)

text \<open>
  C9. \<^verbatim>\<open>train_step\<close> one-hot encodes every label before it applies the label mask: on
  partitions of the shapes of the data model it returns when every label of the batch is in
  \<open>[0, C)\<close> and raises a RuntimeError otherwise, also when the only label out of range is at
  a position where the label mask is false.
\<close>

theorem train_step_label_precondition:
  assumes "train_step_forward env cfg batch st = Inr (fwd, st1)"
    and "shapes_ok cfg H fwd"
  shows "(labels_in_range cfg (b_labels fwd) \<longrightarrow>
            (\<exists>r. train_step env cfg batch st = Inr (r, run_optimizers env st1)))
     \<and> (\<not> labels_in_range cfg (b_labels fwd) \<longrightarrow>
            train_step env cfg batch st = Inl RuntimeError)
     \<and> (\<forall>i<length (b_labels fwd).
            \<not> b_label_mask fwd ! i
            \<and> (b_labels fwd ! i < 0 \<or> int (length (label_list cfg)) \<le> b_labels fwd ! i) \<longrightarrow>
            train_step env cfg batch st = Inl RuntimeError)"
proof (intro conjI impI allI)
  assume "labels_in_range cfg (b_labels fwd)"
  then show "\<exists>r. train_step env cfg batch st = Inr (r, run_optimizers env st1)"
    by (simp add: train_step_def assms(1) generator_loss_spec [OF assms(2)]
          discriminator_loss_spec [OF assms(2)])
next
  assume "\<not> labels_in_range cfg (b_labels fwd)"
  then show "train_step env cfg batch st = Inl RuntimeError"
    by (simp add: train_step_def assms(1) generator_loss_spec [OF assms(2)]
          discriminator_loss_invalid)
next
  fix i
  assume i: "i < length (b_labels fwd)"
    and bad: "\<not> b_label_mask fwd ! i
       \<and> (b_labels fwd ! i < 0 \<or> int (length (label_list cfg)) \<le> b_labels fwd ! i)"
  have "\<not> labels_in_range cfg (b_labels fwd)"
    using i bad by (auto simp: labels_in_range_def list_all_length)
  then show "train_step env cfg batch st = Inl RuntimeError"
    by (simp add: train_step_def assms(1) generator_loss_spec [OF assms(2)]
          discriminator_loss_invalid)
qed

theorem train_step_label_precondition_witness:
  "train_step example_models example_config (example_batch (Some [0, 5]) (Some [True, False]))
     example_trainer = Inl RuntimeError
   \<and> (\<exists>r. train_step example_models example_config
              (example_batch (Some [0, 1]) (Some [True, False])) example_trainer
            = Inr (r, \<lparr>params = 1, calls = example_calls\<rparr>))"
  using train_step_label_precondition
    [OF example_forward_pass [of "[0, 5]" "[True, False]"] example_shapes]
    train_step_label_precondition
    [OF example_forward_pass [of "[0, 1]" "[True, False]"] example_shapes]
  by (simp add: labels_in_range_def example_config_def example_forward_def run_optimizers_def
        example_models_def)




end
